theory Spec2Isabelle
  imports Main "HOL-Library.Sublist"
begin

section \<open>The subscription webhook of src/app/api/create-user/route.ts\<close>

text \<open>
  The route handler \<^verbatim>\<open>POST\<close> receives a payment-provider event, resolves the plan of
  the product through \<^verbatim>\<open>planMapping\<close>, computes the expiration with
  \<^verbatim>\<open>calculateExpirationDate\<close>, and either updates the existing user or registers a
  new one and sends the welcome e-mail with \<^verbatim>\<open>sendWelcomeEmail\<close>.

  JavaScript values are modelled as follows. A value that may be \<^verbatim>\<open>undefined\<close> or
  \<^verbatim>\<open>null\<close> is an \<open>option\<close> (\<open>None\<close> for both: the handler never tells them apart).
  A number that may be \<^verbatim>\<open>NaN\<close> is an \<open>int option\<close> (\<open>None\<close> is \<^verbatim>\<open>NaN\<close>); every
  number of the handler is an integer below \<open>2 ^ 53\<close> in absolute value, where IEEE
  doubles are exact. A string is a \<open>string\<close>, read as the bytes of its UTF-8 encoding.
  A thrown exception is a value of type \<open>thrown\<close>.
\<close>

subsection \<open>ECMAScript time values (ECMA-262, Date objects)\<close>

text \<open>
  A time value is a number of milliseconds since 1970-01-01T00:00:00Z. The functions
  below are the abstract operations of ECMA-262 under their own names; \<open>div\<close> and
  \<open>mod\<close> on \<open>int\<close> are the floor and the modulo of the standard.
\<close>

definition msPerDay :: int where
  "msPerDay = 86400000"

definition Day :: "int \<Rightarrow> int" where
  "Day t = t div msPerDay"

definition TimeWithinDay :: "int \<Rightarrow> int" where
  "TimeWithinDay t = t mod msPerDay"

definition DaysInYear :: "int \<Rightarrow> int" where
  "DaysInYear y =
     (if y mod 4 \<noteq> 0 then 365
      else if y mod 100 \<noteq> 0 then 366
      else if y mod 400 \<noteq> 0 then 365
      else 366)"

definition DayFromYear :: "int \<Rightarrow> int" where
  "DayFromYear y =
     365 * (y - 1970) + (y - 1969) div 4 - (y - 1901) div 100 + (y - 1601) div 400"

definition TimeFromYear :: "int \<Rightarrow> int" where
  "TimeFromYear y = msPerDay * DayFromYear y"

text \<open>
  ECMA-262 defines \<^verbatim>\<open>YearFromTime(t)\<close> as the largest \<open>y\<close> with
  \<open>TimeFromYear y \<le> t\<close>. \<open>year_from_day\<close> computes it: a year of 365.2425 days on
  average gives an estimate that is off by one at most, and the two comparisons correct
  it (lemma \<open>year_from_day_bracket\<close> below).
\<close>

definition year_from_day :: "int \<Rightarrow> int" where
  "year_from_day d =
     (let y0 = 1970 + (400 * d) div 146097
      in if d < DayFromYear y0 then y0 - 1
         else if DayFromYear (y0 + 1) \<le> d then y0 + 1
         else y0)"

definition YearFromTime :: "int \<Rightarrow> int" where
  "YearFromTime t = year_from_day (Day t)"

definition InLeapYear :: "int \<Rightarrow> int" where
  "InLeapYear t = (if DaysInYear (YearFromTime t) = 366 then 1 else 0)"

definition DayWithinYear :: "int \<Rightarrow> int" where
  "DayWithinYear t = Day t - DayFromYear (YearFromTime t)"

text \<open>
  \<open>month_start m leap\<close> is the day within the year on which month \<open>m\<close> (0 for January)
  begins: the thresholds of \<^verbatim>\<open>MonthFromTime\<close> in ECMA-262.
\<close>

definition month_start :: "int \<Rightarrow> int \<Rightarrow> int" where
  "month_start m leap =
     (if m \<le> 0 then 0
      else if m = 1 then 31
      else if m = 2 then 59 + leap
      else if m = 3 then 90 + leap
      else if m = 4 then 120 + leap
      else if m = 5 then 151 + leap
      else if m = 6 then 181 + leap
      else if m = 7 then 212 + leap
      else if m = 8 then 243 + leap
      else if m = 9 then 273 + leap
      else if m = 10 then 304 + leap
      else if m = 11 then 334 + leap
      else 365 + leap)"

definition month_of_day :: "int \<Rightarrow> int \<Rightarrow> int" where
  "month_of_day d leap =
     (if d < 31 then 0
      else if d < 59 + leap then 1
      else if d < 90 + leap then 2
      else if d < 120 + leap then 3
      else if d < 151 + leap then 4
      else if d < 181 + leap then 5
      else if d < 212 + leap then 6
      else if d < 243 + leap then 7
      else if d < 273 + leap then 8
      else if d < 304 + leap then 9
      else if d < 334 + leap then 10
      else 11)"

definition MonthFromTime :: "int \<Rightarrow> int" where
  "MonthFromTime t = month_of_day (DayWithinYear t) (InLeapYear t)"

definition DateFromTime :: "int \<Rightarrow> int" where
  "DateFromTime t =
     DayWithinYear t - month_start (MonthFromTime t) (InLeapYear t) + 1"

definition HourFromTime :: "int \<Rightarrow> int" where
  "HourFromTime t = (t div 3600000) mod 24"

definition MinFromTime :: "int \<Rightarrow> int" where
  "MinFromTime t = (t div 60000) mod 60"

definition SecFromTime :: "int \<Rightarrow> int" where
  "SecFromTime t = (t div 1000) mod 60"

definition msFromTime :: "int \<Rightarrow> int" where
  "msFromTime t = t mod 1000"

text \<open>
  \<^verbatim>\<open>MakeDay(year, month, date)\<close>: the day number of the first day of month
  \<open>month mod 12\<close> of year \<open>year + month div 12\<close>, plus \<open>date - 1\<close>. A \<open>date\<close> beyond the
  end of the month runs into the following month. ECMA-262 describes that first day by
  its year, month and date; the sum below is the day with these three (lemma
  \<open>fields_of_day\<close>). A year or month too large for any time value gives a day that
  \<open>TimeClip\<close> refuses, where ECMA-262 gives \<^verbatim>\<open>NaN\<close> at once.
\<close>

definition MakeDay :: "int \<Rightarrow> int \<Rightarrow> int \<Rightarrow> int" where
  "MakeDay year month date =
     (let ym = year + month div 12;
          mn = month mod 12
      in DayFromYear ym + month_start mn (if DaysInYear ym = 366 then 1 else 0) + date - 1)"

definition MakeTime :: "int \<Rightarrow> int \<Rightarrow> int \<Rightarrow> int \<Rightarrow> int" where
  "MakeTime hour minute sec ms = hour * 3600000 + minute * 60000 + sec * 1000 + ms"

definition MakeDate :: "int \<Rightarrow> int \<Rightarrow> int" where
  "MakeDate day time = day * msPerDay + time"

definition TimeClip :: "int \<Rightarrow> int option" where
  "TimeClip v = (if \<bar>v\<bar> > 8640000000000000 then None else Some v)"

text \<open>
  The local time zone of the server is a fixed offset \<open>tza\<close> from UTC, in milliseconds
  (0 on a server that runs in UTC): \<^verbatim>\<open>LocalTime(t) = t + LocalTZA\<close>,
  \<^verbatim>\<open>UTC(t) = t - LocalTZA\<close>. Zones with daylight-saving transitions are not modelled.
\<close>

definition LocalTime :: "int \<Rightarrow> int \<Rightarrow> int" where
  "LocalTime tza t = t + tza"

definition UTC :: "int \<Rightarrow> int \<Rightarrow> int" where
  "UTC tza t = t - tza"

text \<open>
  \<^verbatim>\<open>Date.prototype.getMonth\<close> and \<^verbatim>\<open>Date.prototype.setMonth\<close> on the time value of a
  Date object (\<open>None\<close> is the invalid date), with the argument of \<^verbatim>\<open>setMonth\<close> a number
  that may be \<^verbatim>\<open>NaN\<close>. \<open>setMonth\<close> returns the new time value of the object.
\<close>

definition getMonth :: "int \<Rightarrow> int option \<Rightarrow> int option" where
  "getMonth tza tv = (case tv of None \<Rightarrow> None | Some t \<Rightarrow> Some (MonthFromTime (LocalTime tza t)))"

definition setMonth :: "int \<Rightarrow> int option \<Rightarrow> int option \<Rightarrow> int option" where
  "setMonth tza tv month =
     (case tv of
        None \<Rightarrow> None
      | Some t0 \<Rightarrow>
          (case month of
             None \<Rightarrow> None
           | Some m \<Rightarrow>
               (let t = LocalTime tza t0;
                    dt = DateFromTime t;
                    newDate = MakeDate (MakeDay (YearFromTime t) m dt) (TimeWithinDay t)
                in TimeClip (UTC tza newDate))))"

subsection \<open>Thrown values and JavaScript numbers\<close>

text \<open>
  The top-level \<^verbatim>\<open>catch\<close> of the handler tells an instance of \<^verbatim>\<open>Error\<close> (it reports
  its message) from any other thrown value.
\<close>

datatype thrown = ErrorObject string | OtherValue

datatype 'a outcome = Returns 'a | Throws thrown

text \<open>\<^verbatim>\<open>a + b\<close> on numbers: \<^verbatim>\<open>NaN\<close> if either is \<^verbatim>\<open>NaN\<close>.\<close>

definition js_add :: "int option \<Rightarrow> int option \<Rightarrow> int option" where
  "js_add a b =
     (case a of None \<Rightarrow> None | Some x \<Rightarrow> (case b of None \<Rightarrow> None | Some y \<Rightarrow> Some (x + y)))"

subsection \<open>\<^verbatim>\<open>Date.prototype.toISOString\<close>\<close>

definition digit_char :: "nat \<Rightarrow> char" where
  "digit_char n = ''0123456789'' ! (n mod 10)"

text \<open>\<open>pad k n\<close>: the last \<open>k\<close> decimal digits of \<open>n\<close>, with leading zeros.\<close>

fun pad :: "nat \<Rightarrow> nat \<Rightarrow> string" where
  "pad 0 n = []"
| "pad (Suc k) n = pad k (n div 10) @ [digit_char n]"

definition format_year :: "int \<Rightarrow> string" where
  "format_year y =
     (if 0 \<le> y \<and> y \<le> 9999 then pad 4 (nat y)
      else (if y < 0 then ''-'' else ''+'') @ pad 6 (nat \<bar>y\<bar>))"

text \<open>
  \<^verbatim>\<open>toISOString\<close> throws a \<^verbatim>\<open>RangeError\<close> on the invalid date and renders every other
  time value in UTC as \<^verbatim>\<open>YYYY-MM-DDTHH:mm:ss.sssZ\<close> (\<open>iso_string\<close>).
\<close>

definition iso_string :: "int \<Rightarrow> string" where
  "iso_string t =
     format_year (YearFromTime t) @ ''-'' @ pad 2 (nat (MonthFromTime t + 1)) @ ''-''
     @ pad 2 (nat (DateFromTime t)) @ ''T'' @ pad 2 (nat (HourFromTime t)) @ '':''
     @ pad 2 (nat (MinFromTime t)) @ '':'' @ pad 2 (nat (SecFromTime t)) @ ''.''
     @ pad 3 (nat (msFromTime t)) @ ''Z''"

definition toISOString :: "int option \<Rightarrow> thrown + string" where
  "toISOString tv =
     (case tv of
        None \<Rightarrow> Inl (ErrorObject ''Invalid time value'')
      | Some t \<Rightarrow> Inr (iso_string t))"

subsection \<open>\<^verbatim>\<open>new Date(string)\<close>\<close>

definition digit_val :: "char \<Rightarrow> nat option" where
  "digit_val c =
     (let n = (of_char c :: nat) in if 48 \<le> n \<and> n \<le> 57 then Some (n - 48) else None)"

primrec digits_val :: "nat \<Rightarrow> string \<Rightarrow> nat option" where
  "digits_val acc [] = Some acc"
| "digits_val acc (c # cs) =
     (case digit_val c of None \<Rightarrow> None | Some v \<Rightarrow> digits_val (10 * acc + v) cs)"

definition field :: "string \<Rightarrow> nat \<Rightarrow> nat \<Rightarrow> nat option" where
  "field s i n = digits_val 0 (take n (drop i s))"

definition DaysInMonth :: "int \<Rightarrow> int \<Rightarrow> int" where
  "DaysInMonth y m =
     (let leap = (if DaysInYear y = 366 then 1 else 0)
      in month_start (m + 1) leap - month_start m leap)"

text \<open>
  \<open>parse_iso\<close> reads the two complete UTC forms of the ECMA-262 date-time string format,
  \<^verbatim>\<open>YYYY-MM-DDTHH:mm:ssZ\<close> and \<^verbatim>\<open>YYYY-MM-DDTHH:mm:ss.sssZ\<close>, with every field in
  range. On any other string \<^verbatim>\<open>Date.parse\<close> is the parameter \<open>other\<close>: the remaining
  forms of the standard and the fallback formats that ECMA-262 leaves to the
  implementation (\<open>None\<close> is \<^verbatim>\<open>NaN\<close>).
\<close>

definition parse_iso :: "string \<Rightarrow> int option" where
  "parse_iso s =
     (if (length s = 20 \<or> (length s = 24 \<and> s ! 19 = CHR ''.''))
         \<and> s ! 4 = CHR ''-'' \<and> s ! 7 = CHR ''-'' \<and> s ! 10 = CHR ''T''
         \<and> s ! 13 = CHR '':'' \<and> s ! 16 = CHR '':'' \<and> last s = CHR ''Z''
      then
        Option.bind (field s 0 4) (\<lambda>y.
        Option.bind (field s 5 2) (\<lambda>mo.
        Option.bind (field s 8 2) (\<lambda>d.
        Option.bind (field s 11 2) (\<lambda>h.
        Option.bind (field s 14 2) (\<lambda>mi.
        Option.bind (field s 17 2) (\<lambda>sec.
        Option.bind (if length s = 24 then field s 20 3 else Some 0) (\<lambda>ms.
          if 1 \<le> mo \<and> mo \<le> 12 \<and> 1 \<le> d \<and> int d \<le> DaysInMonth (int y) (int mo - 1)
             \<and> h \<le> 23 \<and> mi \<le> 59 \<and> sec \<le> 59
          then Some (MakeDate (MakeDay (int y) (int mo - 1) (int d))
                              (MakeTime (int h) (int mi) (int sec) (int ms)))
          else None)))))))
      else None)"

definition Date_parse :: "(string \<Rightarrow> int option) \<Rightarrow> string \<Rightarrow> int option" where
  "Date_parse other s = (case parse_iso s of Some t \<Rightarrow> Some t | None \<Rightarrow> other s)"

definition new_Date :: "(string \<Rightarrow> int option) \<Rightarrow> string \<Rightarrow> int option" where
  "new_Date other s = (case Date_parse other s of None \<Rightarrow> None | Some v \<Rightarrow> TimeClip v)"

subsection \<open>\<^verbatim>\<open>calculateExpirationDate\<close> (lines 24 to 28)\<close>

text \<open>
  \<^verbatim>\<open>new Date(startDate)\<close> copies the time value of \<open>startDate\<close>; \<open>months\<close> is the number
  passed by the caller, \<^verbatim>\<open>NaN\<close> when the caller passes \<^verbatim>\<open>undefined\<close>.
  \<open>expiration_time\<close> is the time value of \<^verbatim>\<open>expirationDate\<close> after line 26, which line 27
  renders.
\<close>

definition expiration_time :: "int \<Rightarrow> int option \<Rightarrow> int option \<Rightarrow> int option" where
  "expiration_time tza startDate months =
     (let expirationDate = startDate
      in setMonth tza expirationDate (js_add (getMonth tza expirationDate) months))"

definition calculateExpirationDate :: "int \<Rightarrow> int option \<Rightarrow> int option \<Rightarrow> thrown + string" where
  "calculateExpirationDate tza startDate months =
     toISOString (expiration_time tza startDate months)"

subsection \<open>\<^verbatim>\<open>planMapping\<close> (lines 7 to 12)\<close>

record plan_info =
  plan :: string
  durationInMonths :: int

definition planMapping :: "(string \<times> plan_info) list" where
  "planMapping =
     [(''Plano Mensal'', \<lparr>plan = ''mensal'', durationInMonths = 1\<rparr>),
      (''Plano 6 Meses'', \<lparr>plan = ''6meses'', durationInMonths = 6\<rparr>),
      (''Plano Anual'', \<lparr>plan = ''anual'', durationInMonths = 12\<rparr>),
      (''Produto Teste'', \<lparr>plan = ''anual'', durationInMonths = 12\<rparr>)]"

text \<open>
  \<^verbatim>\<open>planMapping\<close> is an object literal, so its prototype is \<^verbatim>\<open>Object.prototype\<close>, and
  \<^verbatim>\<open>planMapping[key]\<close> is the ordinary property read of ECMA-262: the own property
  \<open>key\<close> if there is one, else the property \<open>key\<close> of the prototype. The properties of
  \<^verbatim>\<open>Object.prototype\<close> (as in V8, the engine of Node.js) are eleven functions and the
  accessor \<^verbatim>\<open>__proto__\<close>, which reads as \<^verbatim>\<open>Object.prototype\<close> itself: all of them
  truthy, none of them with a property \<^verbatim>\<open>plan\<close> or \<^verbatim>\<open>durationInMonths\<close>.
\<close>

definition Object_prototype :: "string list" where
  "Object_prototype =
     [''constructor'', ''__defineGetter__'', ''__defineSetter__'', ''hasOwnProperty'',
      ''__lookupGetter__'', ''__lookupSetter__'', ''isPrototypeOf'', ''propertyIsEnumerable'',
      ''toString'', ''valueOf'', ''__proto__'', ''toLocaleString'']"

datatype property = Own plan_info | Inherited

text \<open>
  The key is \<^verbatim>\<open>product?.name\<close>. When it is \<^verbatim>\<open>undefined\<close> or \<^verbatim>\<open>null\<close> (\<open>None\<close>) the
  property read is that of the key \<^verbatim>\<open>"undefined"\<close> or \<^verbatim>\<open>"null"\<close>, which neither
  object has.
\<close>

definition planMapping_get :: "string option \<Rightarrow> property option" where
  "planMapping_get key =
     (case key of
        None \<Rightarrow> None
      | Some k \<Rightarrow>
          (case map_of planMapping k of
             Some info \<Rightarrow> Some (Own info)
           | None \<Rightarrow> if k \<in> set Object_prototype then Some Inherited else None))"

text \<open>The destructuring \<^verbatim>\<open>const { plan, durationInMonths } = planInfo\<close> of line 111.\<close>

definition plan_of :: "property \<Rightarrow> string option" where
  "plan_of p = (case p of Own info \<Rightarrow> Some (plan info) | Inherited \<Rightarrow> None)"

definition durationInMonths_of :: "property \<Rightarrow> int option" where
  "durationInMonths_of p = (case p of Own info \<Rightarrow> Some (durationInMonths info) | Inherited \<Rightarrow> None)"

subsection \<open>The request body\<close>

text \<open>
  The body is the JSON value of the request at the shape the handler destructures:
  \<^verbatim>\<open>{ event, data: { customer: { email, name, phone, docNumber }, paidAt, product: { name } } }\<close>,
  or an array of such objects. Every member may be absent or \<^verbatim>\<open>null\<close> (\<open>None\<close>), and the
  members the handler reads as text are strings. A body with a member of another JSON
  type than this shape gives (a number for \<^verbatim>\<open>data\<close>, an object for \<^verbatim>\<open>email\<close>) is not
  modelled.
\<close>

record product =
  name :: "string option"

record customer =
  email :: "string option"
  name :: "string option"
  phone :: "string option"
  docNumber :: "string option"

record data =
  customer :: "customer option"
  paidAt :: "string option"
  product :: "product option"

record webhookData =
  event :: "string option"
  data :: "data option"

datatype body = Array "webhookData option list" | Value "webhookData option"

text \<open>Truthiness of a string that may be absent: \<^verbatim>\<open>undefined\<close>, \<^verbatim>\<open>null\<close> and the empty string are falsy.\<close>

definition truthy :: "string option \<Rightarrow> bool" where
  "truthy v = (case v of None \<Rightarrow> False | Some s \<Rightarrow> s \<noteq> [])"

text \<open>The string itself where it is truthy, the empty string otherwise (\<^verbatim>\<open>v || ''\<close>).\<close>

definition or_empty :: "string option \<Rightarrow> string" where
  "or_empty v = (case v of None \<Rightarrow> [] | Some s \<Rightarrow> s)"

subsection \<open>Objects the handler builds\<close>

text \<open>
  An object literal is the list of its properties in the order written;
  \<open>map_of\<close> reads a property.
\<close>

datatype jsvalue = Str string | Bool bool | Undefined

type_synonym jsobject = "(string \<times> jsvalue) list"

definition of_maybe :: "string option \<Rightarrow> jsvalue" where
  "of_maybe v = (case v of None \<Rightarrow> Undefined | Some s \<Rightarrow> Str s)"

text \<open>The text of a property inside a template literal.\<close>

definition template_text :: "jsvalue option \<Rightarrow> string" where
  "template_text v =
     (case v of
        Some (Str s) \<Rightarrow> s
      | Some (Bool b) \<Rightarrow> (if b then ''true'' else ''false'')
      | Some Undefined \<Rightarrow> ''undefined''
      | None \<Rightarrow> ''undefined'')"

subsection \<open>The collaborators: \<^verbatim>\<open>authService\<close>, the Gmail client, the environment\<close>

text \<open>
  \<^verbatim>\<open>authService\<close> (\<^verbatim>\<open>@/services/AuthService\<close>) and the Gmail client are not part of the
  handler. Each call is an effect, recorded in the order the handler makes it, and its
  outcome is a parameter: the promise resolves to a value or rejects. A result of
  \<^verbatim>\<open>login\<close> and \<^verbatim>\<open>register\<close> carries \<^verbatim>\<open>success\<close>, \<^verbatim>\<open>user\<close> and \<^verbatim>\<open>message\<close>; of a
  user the handler reads the \<^verbatim>\<open>id\<close> only.
\<close>

datatype user = User (user_id: string)

datatype auth_result =
  AuthResult (result_success: bool) (result_user: "user option") (result_message: "string option")

record env =
  tza :: int
  Date_parse_other :: "string \<Rightarrow> int option"
  G_CLIENT_ID :: "string option"
  G_CLIENT_SECRET :: "string option"
  G_REFRESH_TOKEN :: "string option"
  EMAIL_FROM :: "string option"
  NEXT_PUBLIC_APP_URL :: "string option"
  login :: "string \<Rightarrow> string \<Rightarrow> auth_result outcome"
  updateUser :: "string \<Rightarrow> jsobject \<Rightarrow> auth_result outcome"
  register :: "jsobject \<Rightarrow> auth_result outcome"
  getAccessToken :: "unit outcome"
  gmail_send :: "string \<Rightarrow> unit outcome"

text \<open>The lines the handler writes to the console, by the text of the source.\<close>

datatype console =
    Credenciais_nao_configuradas
  | Email_enviado string
  | Falha_ao_enviar_email string thrown
  | Plano_nao_reconhecido "string option"
  | Usuario_ja_existe string
  | Criando_novo_usuario string
  | Usuario_criado_com_sucesso string "string option"
  | Falha_ao_registrar_usuario "string option"
  | Evento_nao_processado "string option"
  | Erro_ao_processar_webhook thrown

datatype effect =
    Console console
  | Login string string
  | UpdateUser string jsobject
  | Register jsobject
  | GetAccessToken
  | GmailSend string

subsection \<open>Base64 (\<^verbatim>\<open>Buffer.from(s).toString('base64')\<close>)\<close>

definition base64_char :: "nat \<Rightarrow> char" where
  "base64_char n =
     ''ABCDEFGHIJKLMNOPQRSTUVWXYZabcdefghijklmnopqrstuvwxyz0123456789+/'' ! (n mod 64)"

fun base64 :: "string \<Rightarrow> string" where
  "base64 [] = []"
| "base64 [a] =
     (let x = (of_char a :: nat)
      in [base64_char (x div 4), base64_char ((x mod 4) * 16), CHR ''='', CHR ''=''])"
| "base64 [a, b] =
     (let x = (of_char a :: nat); y = (of_char b :: nat)
      in [base64_char (x div 4), base64_char ((x mod 4) * 16 + y div 16),
          base64_char ((y mod 16) * 4), CHR ''=''])"
| "base64 (a # b # c # rest) =
     (let x = (of_char a :: nat); y = (of_char b :: nat); z = (of_char c :: nat)
      in [base64_char (x div 4), base64_char ((x mod 4) * 16 + y div 16),
          base64_char ((y mod 16) * 4 + z div 64), base64_char (z mod 64)] @ base64 rest)"

text \<open>
  The three \<^verbatim>\<open>replace\<close> calls of line 72: \<^verbatim>\<open>+\<close> becomes \<^verbatim>\<open>-\<close>, \<^verbatim>\<open>/\<close> becomes \<^verbatim>\<open>_\<close>,
  the trailing \<^verbatim>\<open>=\<close> signs are removed.
\<close>

definition base64url :: "string \<Rightarrow> string" where
  "base64url s =
     rev (dropWhile (\<lambda>c. c = CHR ''='')
       (rev (map (\<lambda>c. if c = CHR ''/'' then CHR ''_'' else c)
         (map (\<lambda>c. if c = CHR ''+'' then CHR ''-'' else c) (base64 s)))))"

subsection \<open>\<^verbatim>\<open>sendWelcomeEmail\<close> (lines 31 to 85)\<close>

definition subject :: string where
  "subject = [CHR 0xF0, CHR 0x9F, CHR 0x8E, CHR 0x93] @ '' Bem-vindo ao ENEM Pro - Suas credenciais de acesso''"

definition emailBody :: "env \<Rightarrow> jsobject \<Rightarrow> string" where
  \<open>emailBody env user =
     ''\<newline>      <div style="font-family: Arial, sans-serif; line-height: 1.6; color: #333;">\<newline>        <h2>Ol''
     @ [CHR 0xC3, CHR 0xA1]
     @ '', ''
     @ template_text (map_of user ''nome'')
     @ ''!</h2>\<newline>        <p>Seu pagamento foi confirmado e seu acesso ''
     @ [CHR 0xC3, CHR 0xA0]
     @ '' plataforma EnemPro foi liberado!</p>\<newline>        <h3>Suas credenciais de acesso:</h3>\<newline>        <ul>\<newline>          <li><strong>Email:</strong> ''
     @ template_text (map_of user ''email'')
     @ ''</li>\<newline>          <li><strong>Senha:</strong> ''
     @ template_text (map_of user ''password'')
     @ ''</li>\<newline>        </ul>\<newline>        <p>Voc''
     @ [CHR 0xC3, CHR 0xAA]
     @ '' pode acessar a plataforma atrav''
     @ [CHR 0xC3, CHR 0xA9]
     @ ''s do link abaixo:</p>\<newline>        <a href="''
     @ (case NEXT_PUBLIC_APP_URL env of
          None \<Rightarrow> ''http://localhost:3000''
        | Some url \<Rightarrow> if url = [] then ''http://localhost:3000'' else url)
     @ ''/login" style="display: inline-block; padding: 10px 20px; background-color: #007bff; color: white; text-decoration: none; border-radius: 5px;">Acessar Plataforma</a>\<newline>        <p>Recomendamos que voc''
     @ [CHR 0xC3, CHR 0xAA]
     @ '' altere sua senha no primeiro acesso.</p>\<newline>        <br>\<newline>        <p>Atenciosamente,</p>\<newline>        <p><strong>Equipe EnemPro</strong></p>\<newline>      </div>\<newline>    ''\<close>

text \<open>The \<^verbatim>\<open>join('\n')\<close> of line 70.\<close>

fun join_lines :: "string list \<Rightarrow> string" where
  "join_lines [] = []"
| "join_lines [l] = l"
| "join_lines (l # ls) = l @ ''\<newline>'' @ join_lines ls"

definition rawMessage :: "env \<Rightarrow> jsobject \<Rightarrow> string" where
  "rawMessage env user =
     join_lines
       [''From: '' @ ''EnemPro <'' @ or_empty (EMAIL_FROM env) @ ''>'',
        ''To: '' @ template_text (map_of user ''email''),
        ''Subject: =?utf-8?B?'' @ base64 subject @ ''?='',
        ''Content-Type: text/html; charset=utf-8'',
        ''MIME-Version: 1.0'',
        [],
        emailBody env user]"

definition encodedMessage :: "env \<Rightarrow> jsobject \<Rightarrow> string" where
  "encodedMessage env user = base64url (rawMessage env user)"

text \<open>
  The function returns nothing and never throws: the missing credentials return early
  (line 34), and the \<^verbatim>\<open>catch\<close> of line 82 takes every exception of the two calls. Its
  value here is the list of its effects.
\<close>

definition sendWelcomeEmail :: "env \<Rightarrow> jsobject \<Rightarrow> effect list" where
  "sendWelcomeEmail env user =
     (if \<not> truthy (G_CLIENT_ID env) \<or> \<not> truthy (G_CLIENT_SECRET env)
         \<or> \<not> truthy (G_REFRESH_TOKEN env) \<or> \<not> truthy (EMAIL_FROM env)
      then [Console Credenciais_nao_configuradas]
      else
        (case getAccessToken env of
           Throws e \<Rightarrow>
             [GetAccessToken,
              Console (Falha_ao_enviar_email (template_text (map_of user ''email'')) e)]
         | Returns accessToken \<Rightarrow>
             (case gmail_send env (encodedMessage env user) of
                Throws e \<Rightarrow>
                  [GetAccessToken, GmailSend (encodedMessage env user),
                   Console (Falha_ao_enviar_email (template_text (map_of user ''email'')) e)]
              | Returns sent \<Rightarrow>
                  [GetAccessToken, GmailSend (encodedMessage env user),
                   Console (Email_enviado (template_text (map_of user ''email'')))])))"

subsection \<open>\<^verbatim>\<open>POST\<close> (lines 88 to 165)\<close>

text \<open>The texts of the \<^verbatim>\<open>message\<close> member of the responses, by the text of the source.\<close>

datatype message =
    Payload_invalido
  | Dados_do_cliente_ausentes
  | Plano_nao_configurado "string option"
  | Assinatura_renovada
  | Usuario_criado
  | Falha_ao_registrar "string option"
  | Evento_nao_acionou "string option"
  | Erro_interno

text \<open>
  \<^verbatim>\<open>NextResponse.json(body, init)\<close>: the status (200 when \<open>init\<close> is absent) and the members
  of the JSON body.
\<close>

record response =
  status :: nat
  success :: bool
  message :: message
  userId :: "string option"
  error :: "string option"

definition json_response :: "nat \<Rightarrow> bool \<Rightarrow> message \<Rightarrow> response" where
  "json_response st ok msg =
     \<lparr>status = st, success = ok, message = msg, userId = None, error = None\<rparr>"

text \<open>The object literals of lines 121 to 125 and of lines 130 to 141.\<close>

definition update_patch :: "string option \<Rightarrow> string \<Rightarrow> jsobject" where
  "update_patch plan' expirationDate =
     [(''isActive'', Bool True),
      (''plan'', of_maybe plan'),
      (''planExpiresAt'', Str expirationDate)]"

definition newUserPayload :: "customer \<Rightarrow> string option \<Rightarrow> string \<Rightarrow> jsobject" where
  "newUserPayload c plan' expirationDate =
     [(''email'', of_maybe (email c)),
      (''password'', Str ''123456''),
      (''nome'', of_maybe (customer.name c)),
      (''phone'', Str (or_empty (phone c))),
      (''cpf'', Str (or_empty (docNumber c))),
      (''birthDate'', Str []),
      (''role'', Str ''user''),
      (''isActive'', Bool True),
      (''plan'', of_maybe plan'),
      (''planExpiresAt'', Str expirationDate)]"

text \<open>
  Lines 116 to 154: the lookup by \<^verbatim>\<open>login\<close> and the two branches on its result. The
  value is the list of effects and either the response returned or the exception that
  leaves the \<^verbatim>\<open>try\<close> block. A variable of the source whose name is also the name of a
  member is written with a prime: \<open>customer'\<close>, \<open>paidAt'\<close>, \<open>product'\<close>, and \<open>plan'\<close>,
  \<open>durationInMonths'\<close> of line 111.
\<close>

definition reconcile ::
  "env \<Rightarrow> customer \<Rightarrow> string option \<Rightarrow> string \<Rightarrow> effect list \<times> (thrown + response)" where
  "reconcile env c plan' expirationDate =
     (case login env (or_empty (email c)) [] of
        Throws e \<Rightarrow> ([Login (or_empty (email c)) []], Inl e)
      | Returns loginResult \<Rightarrow>
          (case (if result_success loginResult then result_user loginResult else None) of
             Some existingUser \<Rightarrow>
               ([Login (or_empty (email c)) [],
                 Console (Usuario_ja_existe (or_empty (email c))),
                 UpdateUser (user_id existingUser) (update_patch plan' expirationDate)],
                (case updateUser env (user_id existingUser) (update_patch plan' expirationDate) of
                   Throws e \<Rightarrow> Inl e
                 | Returns updated \<Rightarrow> Inr (json_response 200 True Assinatura_renovada)))
           | None \<Rightarrow>
               (case register env (newUserPayload c plan' expirationDate) of
                  Throws e \<Rightarrow>
                    ([Login (or_empty (email c)) [],
                      Console (Criando_novo_usuario (or_empty (email c))),
                      Register (newUserPayload c plan' expirationDate)],
                     Inl e)
                | Returns result \<Rightarrow>
                    (case (if result_success result then result_user result else None) of
                       Some created \<Rightarrow>
                         ([Login (or_empty (email c)) [],
                           Console (Criando_novo_usuario (or_empty (email c))),
                           Register (newUserPayload c plan' expirationDate),
                           Console (Usuario_criado_com_sucesso (or_empty (email c)) plan')]
                          @ sendWelcomeEmail env (newUserPayload c plan' expirationDate),
                          Inr ((json_response 200 True Usuario_criado)
                                 \<lparr>userId := Some (user_id created)\<rparr>))
                     | None \<Rightarrow>
                         ([Login (or_empty (email c)) [],
                           Console (Criando_novo_usuario (or_empty (email c))),
                           Register (newUserPayload c plan' expirationDate),
                           Console (Falha_ao_registrar_usuario (result_message result))],
                          Inr (json_response 500 False
                                 (Falha_ao_registrar (result_message result))))))))"

text \<open>
  Lines 101 to 115 and, through \<open>reconcile\<close>, the rest of the body of the \<^verbatim>\<open>if\<close> of
  line 100, entered with a recognised event and a truthy \<^verbatim>\<open>paidAt\<close>.
\<close>

definition subscription ::
  "env \<Rightarrow> customer option \<Rightarrow> string \<Rightarrow> product option \<Rightarrow> effect list \<times> (thrown + response)" where
  "subscription env customer' paidAt' product' =
     (case customer' of
        None \<Rightarrow> ([], Inr (json_response 400 False Dados_do_cliente_ausentes))
      | Some c \<Rightarrow>
          if \<not> truthy (email c) \<or> \<not> truthy (customer.name c)
          then ([], Inr (json_response 400 False Dados_do_cliente_ausentes))
          else
            (let product_name = (case product' of None \<Rightarrow> None | Some p \<Rightarrow> product.name p) in
             case planMapping_get product_name of
               None \<Rightarrow>
                 ([Console (Plano_nao_reconhecido product_name)],
                  Inr (json_response 400 False (Plano_nao_configurado product_name)))
             | Some planInfo \<Rightarrow>
                 (let plan' = plan_of planInfo;
                      durationInMonths' = durationInMonths_of planInfo;
                      paymentDate = new_Date (Date_parse_other env) paidAt'
                  in case calculateExpirationDate (tza env) paymentDate durationInMonths' of
                       Inl e \<Rightarrow> ([], Inl e)
                     | Inr expirationDate \<Rightarrow> reconcile env c plan' expirationDate)))"

text \<open>
  Lines 89 to 158, the \<^verbatim>\<open>try\<close> block. \<open>request_json\<close> is the outcome of
  \<^verbatim>\<open>request.json()\<close>, which rejects when the body is not JSON; \<open>webhookData_of\<close> is
  line 91, the first element of an array (\<^verbatim>\<open>undefined\<close> when it is empty) or the body
  itself.
\<close>

definition webhookData_of :: "body \<Rightarrow> webhookData option" where
  "webhookData_of body =
     (case body of
        Array xs \<Rightarrow> (case xs of [] \<Rightarrow> None | x # rest \<Rightarrow> x)
      | Value v \<Rightarrow> v)"

definition POST_try :: "env \<Rightarrow> body outcome \<Rightarrow> effect list \<times> (thrown + response)" where
  "POST_try env request_json =
     (case request_json of
        Throws e \<Rightarrow> ([], Inl e)
      | Returns body \<Rightarrow>
          (case webhookData_of body of
             None \<Rightarrow> ([], Inr (json_response 400 False Payload_invalido))
           | Some webhookData \<Rightarrow>
               (case data webhookData of
                  None \<Rightarrow> ([], Inr (json_response 400 False Payload_invalido))
                | Some d \<Rightarrow>
                    if (event webhookData = Some ''subscription_created''
                        \<or> event webhookData = Some ''subscription_renewed'')
                       \<and> truthy (paidAt d)
                    then subscription env (customer d) (or_empty (paidAt d)) (product d)
                    else
                      ([Console (Evento_nao_processado (event webhookData))],
                       Inr (json_response 200 True (Evento_nao_acionou (event webhookData)))))))"

text \<open>Lines 160 to 164, the \<^verbatim>\<open>catch\<close> block, and with it the whole handler.\<close>

definition POST :: "env \<Rightarrow> body outcome \<Rightarrow> effect list \<times> response" where
  "POST env request_json =
     (case POST_try env request_json of
        (effects, Inr r) \<Rightarrow> (effects, r)
      | (effects, Inl e) \<Rightarrow>
          (effects @ [Console (Erro_ao_processar_webhook e)],
           (json_response 500 False Erro_interno)
             \<lparr>error := Some (case e of ErrorObject m \<Rightarrow> m
                                      | OtherValue \<Rightarrow> ''Erro desconhecido no servidor.'')\<rparr>))"

subsection \<open>Reading the effects\<close>

text \<open>The calls to \<^verbatim>\<open>authService\<close> among the effects of a request, in order.\<close>

fun is_directory_op :: "effect \<Rightarrow> bool" where
  "is_directory_op (Login e p) = True"
| "is_directory_op (UpdateUser i p) = True"
| "is_directory_op (Register p) = True"
| "is_directory_op x = False"

definition directory_ops :: "effect list \<Rightarrow> effect list" where
  "directory_ops effects = filter is_directory_op effects"

subsection \<open>Example requests\<close>

text \<open>
  A server in UTC with the Gmail credentials set, whose collaborators answer every call
  with the outcomes given; a customer; and an event of that customer.
\<close>

definition example_env ::
  "auth_result outcome \<Rightarrow> auth_result outcome \<Rightarrow> auth_result outcome \<Rightarrow> unit outcome \<Rightarrow> env" where
  "example_env l u r g =
     \<lparr>tza = 0, Date_parse_other = (\<lambda>s. None),
      G_CLIENT_ID = Some ''client'', G_CLIENT_SECRET = Some ''secret'',
      G_REFRESH_TOKEN = Some ''token'', EMAIL_FROM = Some ''no-reply@enem.pro'',
      NEXT_PUBLIC_APP_URL = None,
      login = (\<lambda>e p. l), updateUser = (\<lambda>i p. u), register = (\<lambda>p. r),
      getAccessToken = Returns (), gmail_send = (\<lambda>raw. g)\<rparr>"

definition example_customer :: customer where
  "example_customer =
     \<lparr>email = Some ''ana@example.com'', name = Some ''Ana'', phone = None, docNumber = None\<rparr>"

definition example_event :: "string \<Rightarrow> string option \<Rightarrow> string \<Rightarrow> webhookData" where
  "example_event ev paid n =
     \<lparr>event = Some ev,
      data = Some \<lparr>customer = Some example_customer, paidAt = paid,
                   product = Some \<lparr>product.name = Some n\<rparr>\<rparr>\<rparr>"

definition example_request :: "string \<Rightarrow> body outcome" where
  "example_request n =
     Returns (Value (Some (example_event ''subscription_renewed''
                             (Some ''2024-01-15T00:00:00Z'') n)))"

definition example_payload :: jsobject where
  "example_payload =
     [(''email'', Str ''ana@example.com''), (''password'', Str ''123456''),
      (''nome'', Str ''Ana''), (''phone'', Str []), (''cpf'', Str []),
      (''birthDate'', Str []), (''role'', Str ''user''), (''isActive'', Bool True),
      (''plan'', Str ''mensal''), (''planExpiresAt'', Str ''2024-02-15T00:00:00.000Z'')]"

text \<open>No account for the e-mail at the lookup, and the registration refused as a duplicate.\<close>

definition conflict_env :: env where
  "conflict_env =
     example_env (Returns (AuthResult False None (Some ''Credenciais invalidas'')))
       (Throws OtherValue)
       (Returns (AuthResult False None (Some ''Email ja cadastrado'')))
       (Returns ())"

text \<open>An account for the e-mail, and the update accepted.\<close>

definition existing_env :: env where
  "existing_env =
     example_env (Returns (AuthResult True (Some (User ''u1'')) None))
       (Returns (AuthResult True (Some (User ''u1'')) None))
       (Throws OtherValue)
       (Returns ())"

text \<open>No account for the e-mail, the registration accepted, and Gmail refusing the message.\<close>

definition fresh_env :: env where
  "fresh_env =
     example_env (Returns (AuthResult False None (Some ''Credenciais invalidas'')))
       (Throws OtherValue)
       (Returns (AuthResult True (Some (User ''u2'')) None))
       (Throws (ErrorObject ''quota''))"

section \<open>The handler: validation and the two branches\<close>

lemma planMapping_get_own:
  "map_of planMapping n = Some info \<Longrightarrow> planMapping_get (Some n) = Some (Own info)"
  by (simp add: planMapping_get_def)

lemma calculateExpirationDate_NaN:
  "calculateExpirationDate z start None = Inl (ErrorObject ''Invalid time value'')"
  by (cases start)
     (simp_all add: calculateExpirationDate_def expiration_time_def js_add_def setMonth_def
        getMonth_def toISOString_def)

lemma POST_of_try:
  "POST_try env rq = (effects, Inr r) \<Longrightarrow> POST env rq = (effects, r)"
  by (simp add: POST_def)

text \<open>
  An event that passes every check of lines 93 to 109 reaches the computation of the
  expiration, and with a valid expiration the lookup.
\<close>

lemma POST_try_accepted:
  assumes "webhookData_of body =
             Some \<lparr>event = Some ev,
                   data = Some \<lparr>customer = Some c, paidAt = Some paid,
                                product = Some \<lparr>product.name = Some n\<rparr>\<rparr>\<rparr>"
    and "ev = ''subscription_created'' \<or> ev = ''subscription_renewed''"
    and "paid \<noteq> []" and "truthy (email c)" and "truthy (customer.name c)"
    and "map_of planMapping n = Some info"
  shows "POST_try env (Returns body) =
           (case calculateExpirationDate (tza env) (new_Date (Date_parse_other env) paid)
                   (Some (durationInMonths info)) of
              Inl e \<Rightarrow> ([], Inl e)
            | Inr expirationDate \<Rightarrow> reconcile env c (Some (plan info)) expirationDate)"
  using assms
  by (auto simp: POST_try_def subscription_def truthy_def or_empty_def planMapping_get_own
        plan_of_def durationInMonths_of_def Let_def)

lemma POST_try_reconcile:
  assumes "webhookData_of body =
             Some \<lparr>event = Some ev,
                   data = Some \<lparr>customer = Some c, paidAt = Some paid,
                                product = Some \<lparr>product.name = Some n\<rparr>\<rparr>\<rparr>"
    and "ev = ''subscription_created'' \<or> ev = ''subscription_renewed''"
    and "paid \<noteq> []" and "truthy (email c)" and "truthy (customer.name c)"
    and "map_of planMapping n = Some info"
    and "calculateExpirationDate (tza env) (new_Date (Date_parse_other env) paid)
           (Some (durationInMonths info)) = Inr expirationDate"
  shows "POST_try env (Returns body) = reconcile env c (Some (plan info)) expirationDate"
  using POST_try_accepted [OF assms(1-6), of env] assms(7) by simp

lemma reconcile_update:
  assumes "login env (or_empty (email c)) [] = Returns loginResult"
    and "result_success loginResult" and "result_user loginResult = Some existingUser"
    and "updateUser env (user_id existingUser) (update_patch plan' x) = Returns updated"
  shows "reconcile env c plan' x =
           ([Login (or_empty (email c)) [], Console (Usuario_ja_existe (or_empty (email c))),
             UpdateUser (user_id existingUser) (update_patch plan' x)],
            Inr (json_response 200 True Assinatura_renovada))"
  using assms by (simp add: reconcile_def)

lemma reconcile_create:
  assumes "login env (or_empty (email c)) [] = Returns loginResult"
    and "\<not> (result_success loginResult \<and> result_user loginResult \<noteq> None)"
    and "register env (newUserPayload c plan' x) = Returns result"
    and "result_success result" and "result_user result = Some created"
  shows "reconcile env c plan' x =
           ([Login (or_empty (email c)) [], Console (Criando_novo_usuario (or_empty (email c))),
             Register (newUserPayload c plan' x),
             Console (Usuario_criado_com_sucesso (or_empty (email c)) plan')]
            @ sendWelcomeEmail env (newUserPayload c plan' x),
            Inr ((json_response 200 True Usuario_criado)\<lparr>userId := Some (user_id created)\<rparr>))"
  using assms by (auto simp: reconcile_def)

lemma reconcile_create_failed:
  assumes "login env (or_empty (email c)) [] = Returns loginResult"
    and "\<not> (result_success loginResult \<and> result_user loginResult \<noteq> None)"
    and "register env (newUserPayload c plan' x) = Returns result"
    and "\<not> (result_success result \<and> result_user result \<noteq> None)"
  shows "reconcile env c plan' x =
           ([Login (or_empty (email c)) [], Console (Criando_novo_usuario (or_empty (email c))),
             Register (newUserPayload c plan' x),
             Console (Falha_ao_registrar_usuario (result_message result))],
            Inr (json_response 500 False (Falha_ao_registrar (result_message result))))"
  using assms by (auto simp: reconcile_def)

text \<open>Every effect of the two branches, whatever the collaborators answer.\<close>

lemma reconcile_effects:
  "set (fst (reconcile env c pl x)) \<subseteq>
     {Login (or_empty (email c)) [], Console (Usuario_ja_existe (or_empty (email c))),
      Console (Criando_novo_usuario (or_empty (email c))),
      Register (newUserPayload c pl x),
      Console (Usuario_criado_com_sucesso (or_empty (email c)) pl),
      GetAccessToken, GmailSend (encodedMessage env (newUserPayload c pl x)),
      Console Credenciais_nao_configuradas,
      Console (Email_enviado (template_text (map_of (newUserPayload c pl x) ''email'')))}
     \<union> range (\<lambda>i. UpdateUser i (update_patch pl x))
     \<union> range (\<lambda>m. Console (Falha_ao_registrar_usuario m))
     \<union> range (\<lambda>e. Console (Falha_ao_enviar_email
                              (template_text (map_of (newUserPayload c pl x) ''email'')) e))"
  by (auto simp: reconcile_def sendWelcomeEmail_def split: outcome.splits option.splits if_splits)

lemma POST_effects:
  "set (fst (POST env rq)) \<subseteq>
     set (fst (POST_try env rq)) \<union> range (\<lambda>e. Console (Erro_ao_processar_webhook e))"
  by (cases "POST_try env rq") (auto simp: POST_def split: sum.splits)

lemma directory_ops_POST:
  "directory_ops (fst (POST env rq)) = directory_ops (fst (POST_try env rq))"
  by (cases "POST_try env rq") (auto simp: POST_def directory_ops_def split: sum.splits)

lemma directory_ops_sendWelcomeEmail: "filter is_directory_op (sendWelcomeEmail env user) = []"
  by (simp add: sendWelcomeEmail_def split: outcome.splits)

lemma sendWelcomeEmail_nonempty: "sendWelcomeEmail env user \<noteq> []"
  by (simp add: sendWelcomeEmail_def split: outcome.splits)

lemma sendWelcomeEmail_asks_token:
  assumes "truthy (G_CLIENT_ID env)" and "truthy (G_CLIENT_SECRET env)"
    and "truthy (G_REFRESH_TOKEN env)" and "truthy (EMAIL_FROM env)"
  shows "GetAccessToken \<in> set (sendWelcomeEmail env user)"
  using assms by (simp add: sendWelcomeEmail_def split: outcome.splits)

lemma encodedMessage_outcomes:
  "encodedMessage (env\<lparr>getAccessToken := a, gmail_send := b\<rparr>) user = encodedMessage env user"
  by (simp add: encodedMessage_def rawMessage_def emailBody_def)

lemma newUserPayload_email:
  "truthy (email c) \<Longrightarrow> template_text (map_of (newUserPayload c p x) ''email'') = or_empty (email c)"
  by (auto simp: newUserPayload_def template_text_def of_maybe_def or_empty_def truthy_def
        split: option.splits)

text \<open>
  The effects of \<^verbatim>\<open>sendWelcomeEmail\<close>, case by case: nothing but a console line without
  the credentials; with them the request of a token and, once the token is there, the
  message handed to Gmail, and the console line of the outcome.
\<close>

lemma sendWelcomeEmail_dispatch:
  "sendWelcomeEmail env user =
     (if truthy (G_CLIENT_ID env) \<and> truthy (G_CLIENT_SECRET env)
         \<and> truthy (G_REFRESH_TOKEN env) \<and> truthy (EMAIL_FROM env)
      then (case getAccessToken env of
              Throws e \<Rightarrow>
                [GetAccessToken,
                 Console (Falha_ao_enviar_email (template_text (map_of user ''email'')) e)]
            | Returns accessToken \<Rightarrow>
                [GetAccessToken, GmailSend (encodedMessage env user)]
                @ (case gmail_send env (encodedMessage env user) of
                     Throws e \<Rightarrow>
                       [Console (Falha_ao_enviar_email (template_text (map_of user ''email'')) e)]
                   | Returns sent \<Rightarrow>
                       [Console (Email_enviado (template_text (map_of user ''email'')))]))
      else [Console Credenciais_nao_configuradas])"
  by (simp add: sendWelcomeEmail_def split: outcome.splits)

subsection \<open>Events that are not applicable\<close>

text \<open>
  Claim C3. A body that carries \<^verbatim>\<open>data\<close> and whose event type is neither
  \<^verbatim>\<open>subscription_created\<close> nor \<^verbatim>\<open>subscription_renewed\<close>, or whose \<^verbatim>\<open>paidAt\<close> is absent
  (or empty), is acknowledged: the only effect is the console line of line 157, so no
  lookup, create or update is made, and the response is 200 with \<^verbatim>\<open>success: true\<close>.
\<close>

theorem not_applicable_event_is_acknowledged:
  assumes "webhookData_of body = Some w" and "data w = Some d"
    and "(event w \<noteq> Some ''subscription_created'' \<and> event w \<noteq> Some ''subscription_renewed'')
         \<or> \<not> truthy (paidAt d)"
  shows "POST env (Returns body) =
           ([Console (Evento_nao_processado (event w))],
            \<lparr>status = 200, success = True, message = Evento_nao_acionou (event w),
             userId = None, error = None\<rparr>)
         \<and> directory_ops (fst (POST env (Returns body))) = []"
proof -
  have "POST_try env (Returns body) =
          ([Console (Evento_nao_processado (event w))],
           Inr (json_response 200 True (Evento_nao_acionou (event w))))"
    using assms by (auto simp: POST_try_def)
  then have "POST env (Returns body) =
          ([Console (Evento_nao_processado (event w))],
           json_response 200 True (Evento_nao_acionou (event w)))"
    by (rule POST_of_try)
  then show ?thesis
    by (simp add: directory_ops_def json_response_def)
qed

theorem not_applicable_event_witness:
  "POST conflict_env
     (Returns (Value (Some (example_event ''payment_failed'' (Some ''2024-01-15T00:00:00Z'')
                              ''Plano Mensal'')))) =
     ([Console (Evento_nao_processado
                  (event (example_event ''payment_failed'' (Some ''2024-01-15T00:00:00Z'')
                            ''Plano Mensal'')))],
      \<lparr>status = 200, success = True,
       message = Evento_nao_acionou
                   (event (example_event ''payment_failed'' (Some ''2024-01-15T00:00:00Z'')
                             ''Plano Mensal'')),
       userId = None, error = None\<rparr>)
   \<and> directory_ops
        (fst (POST conflict_env
                (Returns (Value (Some (example_event ''payment_failed''
                                         (Some ''2024-01-15T00:00:00Z'') ''Plano Mensal'')))))) = []"
  by (rule not_applicable_event_is_acknowledged
        [where d = "\<lparr>customer = Some example_customer, paidAt = Some ''2024-01-15T00:00:00Z'',
                      product = Some \<lparr>product.name = Some ''Plano Mensal''\<rparr>\<rparr>"])
     (simp_all add: webhookData_of_def example_event_def)

text \<open>The same for a recognised event whose \<^verbatim>\<open>paidAt\<close> is absent.\<close>

lemma recognised_event_without_paidAt:
  "POST env (Returns (Value (Some (example_event ''subscription_created'' None n)))) =
     ([Console (Evento_nao_processado (Some ''subscription_created''))],
      \<lparr>status = 200, success = True,
       message = Evento_nao_acionou (Some ''subscription_created''),
       userId = None, error = None\<rparr>)"
  by (simp add: POST_def POST_try_def webhookData_of_def example_event_def truthy_def
        json_response_def)

subsection \<open>Rejected requests\<close>

text \<open>
  The three rejections with status 400: no \<^verbatim>\<open>data\<close> (line 93), a customer that is absent
  or has no e-mail or no name (line 101), and a product name for which the read of
  \<^verbatim>\<open>planMapping\<close> gives \<^verbatim>\<open>undefined\<close> (line 106). None of them reaches \<^verbatim>\<open>authService\<close>.
\<close>

lemma missing_data_is_rejected:
  assumes "webhookData_of body = None \<or> (\<exists>w. webhookData_of body = Some w \<and> data w = None)"
  shows "POST env (Returns body) =
           ([], \<lparr>status = 400, success = False, message = Payload_invalido, userId = None,
                 error = None\<rparr>)"
  using assms by (auto simp: POST_def POST_try_def json_response_def)

lemma missing_customer_is_rejected:
  assumes "webhookData_of body = Some w" and "data w = Some d"
    and "event w = Some ''subscription_created'' \<or> event w = Some ''subscription_renewed''"
    and "truthy (paidAt d)"
    and "customer d = None
         \<or> (\<exists>c. customer d = Some c \<and> (\<not> truthy (email c) \<or> \<not> truthy (customer.name c)))"
  shows "POST env (Returns body) =
           ([], \<lparr>status = 400, success = False, message = Dados_do_cliente_ausentes,
                 userId = None, error = None\<rparr>)"
  using assms by (auto simp: POST_def POST_try_def subscription_def json_response_def)

lemma unknown_product_is_rejected:
  assumes "webhookData_of body = Some w" and "data w = Some d"
    and "event w = Some ''subscription_created'' \<or> event w = Some ''subscription_renewed''"
    and "truthy (paidAt d)"
    and "customer d = Some c" and "truthy (email c)" and "truthy (customer.name c)"
    and "planMapping_get (case product d of None \<Rightarrow> None | Some p \<Rightarrow> product.name p) = None"
  shows "POST env (Returns body) =
           ([Console (Plano_nao_reconhecido
                        (case product d of None \<Rightarrow> None | Some p \<Rightarrow> product.name p))],
            \<lparr>status = 400, success = False,
             message = Plano_nao_configurado
                         (case product d of None \<Rightarrow> None | Some p \<Rightarrow> product.name p),
             userId = None, error = None\<rparr>)"
  using assms by (auto simp: POST_def POST_try_def subscription_def json_response_def Let_def)

text \<open>
  Claim C4 says that every product name without a catalog entry is rejected with status
  400. The name \<^verbatim>\<open>constructor\<close> has no entry in the catalog, but the read of line 105
  finds the property that \<^verbatim>\<open>planMapping\<close> inherits from \<^verbatim>\<open>Object.prototype\<close>, the check of
  line 106 passes, \<^verbatim>\<open>durationInMonths\<close> is \<^verbatim>\<open>undefined\<close>, line 26 makes the date
  invalid and line 27 throws: the response is 500, on every server and whatever the
  collaborators would answer.
\<close>

theorem inherited_product_name_is_server_error:
  "POST env (example_request ''constructor'') =
     ([Console (Erro_ao_processar_webhook (ErrorObject ''Invalid time value''))],
      \<lparr>status = 500, success = False, message = Erro_interno, userId = None,
       error = Some ''Invalid time value''\<rparr>)"
  by (simp add: POST_def POST_try_def example_request_def example_event_def example_customer_def
        webhookData_of_def truthy_def or_empty_def subscription_def planMapping_get_def
        planMapping_def Object_prototype_def durationInMonths_of_def plan_of_def
        calculateExpirationDate_NaN json_response_def)

subsection \<open>Plan resolution\<close>

lemma planMapping_get_keys:
  "planMapping_get (Some ''Plano Mensal'') =
     Some (Own \<lparr>plan = ''mensal'', durationInMonths = 1\<rparr>)"
  "planMapping_get (Some ''Plano 6 Meses'') =
     Some (Own \<lparr>plan = ''6meses'', durationInMonths = 6\<rparr>)"
  "planMapping_get (Some ''Plano Anual'') =
     Some (Own \<lparr>plan = ''anual'', durationInMonths = 12\<rparr>)"
  "planMapping_get (Some ''Produto Teste'') =
     Some (Own \<lparr>plan = ''anual'', durationInMonths = 12\<rparr>)"
  by (simp_all add: planMapping_get_def planMapping_def)

lemma planMapping_get_case_variant: "planMapping_get (Some ''plano mensal'') = None"
  by (simp add: planMapping_get_def planMapping_def Object_prototype_def)

lemma planMapping_get_None_iff:
  "planMapping_get (Some k) = None \<longleftrightarrow>
     k \<notin> fst ` set planMapping \<and> k \<notin> set Object_prototype"
  by (auto simp: planMapping_get_def map_of_eq_None_iff split: option.splits
        dest!: map_of_SomeD intro: rev_image_eqI)

text \<open>
  Claim C7 says that every string that is not a key of the catalog resolves to
  not-found. \<^verbatim>\<open>constructor\<close> is not a key of the catalog, and the read
  \<^verbatim>\<open>planMapping['constructor']\<close> is not \<^verbatim>\<open>undefined\<close>: it is the function that the object
  inherits, which the handler then takes for a plan (the twelve names of
  \<open>Object_prototype\<close> behave alike; every other string that is not a key does resolve
  to not-found, by \<open>planMapping_get_None_iff\<close>).
\<close>

theorem constructor_resolves_to_inherited_property:
  "map_of planMapping ''constructor'' = None
   \<and> planMapping_get (Some ''constructor'') = Some Inherited
   \<and> plan_of Inherited = None \<and> durationInMonths_of Inherited = None"
  by (simp add: planMapping_get_def planMapping_def Object_prototype_def plan_of_def
        durationInMonths_of_def)

subsection \<open>The lookup\<close>

text \<open>
  Claim C9. For an accepted event with a valid expiration, the calls to \<^verbatim>\<open>authService\<close>
  are, in order: one \<^verbatim>\<open>login\<close> with the e-mail of the customer and the empty password,
  and then \<^verbatim>\<open>updateUser\<close> if that login resolved with \<^verbatim>\<open>success\<close> and a \<^verbatim>\<open>user\<close>,
  \<^verbatim>\<open>register\<close> if it resolved otherwise, nothing if it rejected. There is no other
  lookup.
\<close>

theorem lookup_is_login_with_empty_password:
  assumes "webhookData_of body =
             Some \<lparr>event = Some ev,
                   data = Some \<lparr>customer = Some c, paidAt = Some paid,
                                product = Some \<lparr>product.name = Some n\<rparr>\<rparr>\<rparr>"
    and "ev = ''subscription_created'' \<or> ev = ''subscription_renewed''"
    and "paid \<noteq> []" and "truthy (email c)" and "truthy (customer.name c)"
    and "map_of planMapping n = Some info"
    and "calculateExpirationDate (tza env) (new_Date (Date_parse_other env) paid)
           (Some (durationInMonths info)) = Inr expirationDate"
  shows "directory_ops (fst (POST env (Returns body))) =
           (case login env (or_empty (email c)) [] of
              Throws e \<Rightarrow> [Login (or_empty (email c)) []]
            | Returns loginResult \<Rightarrow>
                (case result_user loginResult of
                   Some existingUser \<Rightarrow>
                     if result_success loginResult
                     then [Login (or_empty (email c)) [],
                           UpdateUser (user_id existingUser)
                             (update_patch (Some (plan info)) expirationDate)]
                     else [Login (or_empty (email c)) [],
                           Register (newUserPayload c (Some (plan info)) expirationDate)]
                 | None \<Rightarrow>
                     [Login (or_empty (email c)) [],
                      Register (newUserPayload c (Some (plan info)) expirationDate)]))"
proof -
  have "directory_ops (fst (reconcile env c (Some (plan info)) expirationDate)) =
           (case login env (or_empty (email c)) [] of
              Throws e \<Rightarrow> [Login (or_empty (email c)) []]
            | Returns loginResult \<Rightarrow>
                (case result_user loginResult of
                   Some existingUser \<Rightarrow>
                     if result_success loginResult
                     then [Login (or_empty (email c)) [],
                           UpdateUser (user_id existingUser)
                             (update_patch (Some (plan info)) expirationDate)]
                     else [Login (or_empty (email c)) [],
                           Register (newUserPayload c (Some (plan info)) expirationDate)]
                 | None \<Rightarrow>
                     [Login (or_empty (email c)) [],
                      Register (newUserPayload c (Some (plan info)) expirationDate)]))"
    by (simp add: reconcile_def directory_ops_def directory_ops_sendWelcomeEmail
          split: outcome.splits option.splits)
  then show ?thesis
    unfolding directory_ops_POST POST_try_reconcile [OF assms] .
qed

subsection \<open>The example request\<close>

lemma example_webhookData:
  "webhookData_of (Value (Some (example_event ev (Some paid) n))) =
     Some \<lparr>event = Some ev,
           data = Some \<lparr>customer = Some example_customer, paidAt = Some paid,
                        product = Some \<lparr>product.name = Some n\<rparr>\<rparr>\<rparr>"
  by (simp add: webhookData_of_def example_event_def)

lemma example_customer_valid:
  "truthy (email example_customer)" "truthy (customer.name example_customer)"
  "or_empty (email example_customer) = ''ana@example.com''"
  by (simp_all add: example_customer_def truthy_def or_empty_def)

lemma example_plan:
  "map_of planMapping ''Plano Mensal'' = Some \<lparr>plan = ''mensal'', durationInMonths = 1\<rparr>"
  by (simp add: planMapping_def)

lemma example_paidAt: "new_Date (\<lambda>s. None) ''2024-01-15T00:00:00Z'' = Some 1705276800000"
  by code_simp

lemma example_expiration:
  "calculateExpirationDate 0 (Some 1705276800000) (Some 1) = Inr ''2024-02-15T00:00:00.000Z''"
  by code_simp

lemma example_env_expiration:
  "calculateExpirationDate (tza (example_env l u r g))
     (new_Date (Date_parse_other (example_env l u r g)) ''2024-01-15T00:00:00Z'')
     (Some (durationInMonths \<lparr>plan = ''mensal'', durationInMonths = 1\<rparr>)) =
   Inr ''2024-02-15T00:00:00.000Z''"
  by (simp add: example_env_def example_paidAt example_expiration)

lemma example_conflict_run:
  "POST conflict_env (example_request ''Plano Mensal'') =
     ([Login ''ana@example.com'' [],
       Console (Criando_novo_usuario ''ana@example.com''),
       Register example_payload,
       Console (Falha_ao_registrar_usuario (Some ''Email ja cadastrado''))],
      \<lparr>status = 500, success = False,
       message = Falha_ao_registrar (Some ''Email ja cadastrado''),
       userId = None, error = None\<rparr>)"
  by code_simp

lemma example_payload_eq:
  "newUserPayload example_customer (Some ''mensal'') ''2024-02-15T00:00:00.000Z'' = example_payload"
  by (simp add: newUserPayload_def example_customer_def example_payload_def of_maybe_def
        or_empty_def)

subsection \<open>An existing account\<close>

text \<open>
  Claim C5. For an accepted event with a valid expiration, when the lookup finds an
  account and the update call returns, the effects are the lookup, one console line and
  one \<^verbatim>\<open>updateUser\<close> whose patch has exactly the properties \<^verbatim>\<open>isActive = true\<close>,
  \<^verbatim>\<open>plan\<close> and \<^verbatim>\<open>planExpiresAt\<close> (so no password and no profile field), no effect
  of the welcome e-mail, and the response is 200 with \<^verbatim>\<open>success: true\<close>.
\<close>

theorem existing_account_is_updated:
  assumes "webhookData_of body =
             Some \<lparr>event = Some ev,
                   data = Some \<lparr>customer = Some c, paidAt = Some paid,
                                product = Some \<lparr>product.name = Some n\<rparr>\<rparr>\<rparr>"
    and "ev = ''subscription_created'' \<or> ev = ''subscription_renewed''"
    and "paid \<noteq> []" and "truthy (email c)" and "truthy (customer.name c)"
    and "map_of planMapping n = Some info"
    and "calculateExpirationDate (tza env) (new_Date (Date_parse_other env) paid)
           (Some (durationInMonths info)) = Inr expirationDate"
    and "login env (or_empty (email c)) [] = Returns loginResult"
    and "result_success loginResult" and "result_user loginResult = Some existingUser"
    and "updateUser env (user_id existingUser)
           [(''isActive'', Bool True), (''plan'', Str (plan info)),
            (''planExpiresAt'', Str expirationDate)] = Returns updated"
  shows "POST env (Returns body) =
           ([Login (or_empty (email c)) [],
             Console (Usuario_ja_existe (or_empty (email c))),
             UpdateUser (user_id existingUser)
               [(''isActive'', Bool True), (''plan'', Str (plan info)),
                (''planExpiresAt'', Str expirationDate)]],
            \<lparr>status = 200, success = True, message = Assinatura_renovada, userId = None,
             error = None\<rparr>)"
proof -
  have p: "update_patch (Some (plan info)) expirationDate =
             [(''isActive'', Bool True), (''plan'', Str (plan info)),
              (''planExpiresAt'', Str expirationDate)]"
    by (simp add: update_patch_def of_maybe_def)
  have "POST_try env (Returns body) = reconcile env c (Some (plan info)) expirationDate"
    by (rule POST_try_reconcile [OF assms(1-7)])
  also have "\<dots> =
      ([Login (or_empty (email c)) [], Console (Usuario_ja_existe (or_empty (email c))),
        UpdateUser (user_id existingUser) (update_patch (Some (plan info)) expirationDate)],
       Inr (json_response 200 True Assinatura_renovada))"
    using assms(11) by (intro reconcile_update [OF assms(8-10)]) (simp add: p)
  finally show ?thesis
    by (simp add: POST_def p json_response_def)
qed

theorem existing_account_witness:
  "POST existing_env (example_request ''Plano Mensal'') =
     ([Login ''ana@example.com'' [],
       Console (Usuario_ja_existe ''ana@example.com''),
       UpdateUser ''u1''
         [(''isActive'', Bool True), (''plan'', Str ''mensal''),
          (''planExpiresAt'', Str ''2024-02-15T00:00:00.000Z'')]],
      \<lparr>status = 200, success = True, message = Assinatura_renovada, userId = None,
       error = None\<rparr>)"
proof -
  have l: "login existing_env (or_empty (email example_customer)) [] =
             Returns (AuthResult True (Some (User ''u1'')) None)"
    by (simp add: existing_env_def example_env_def)
  have u: "updateUser existing_env (user_id (User ''u1''))
             [(''isActive'', Bool True),
              (''plan'', Str (plan \<lparr>plan = ''mensal'', durationInMonths = 1\<rparr>)),
              (''planExpiresAt'', Str ''2024-02-15T00:00:00.000Z'')] =
           Returns (AuthResult True (Some (User ''u1'')) None)"
    by (simp add: existing_env_def example_env_def)
  have x: "calculateExpirationDate (tza existing_env)
             (new_Date (Date_parse_other existing_env) ''2024-01-15T00:00:00Z'')
             (Some (durationInMonths \<lparr>plan = ''mensal'', durationInMonths = 1\<rparr>)) =
           Inr ''2024-02-15T00:00:00.000Z''"
    unfolding existing_env_def by (rule example_env_expiration)
  show ?thesis
    unfolding example_request_def
    using existing_account_is_updated
            [OF example_webhookData _ _ example_customer_valid(1,2) example_plan x l _ _ u]
    by (simp add: example_customer_valid)
qed

subsection \<open>A new account\<close>

text \<open>
  Claim C6. For an accepted event with a valid expiration, when the lookup finds no
  account and the registration succeeds, the handler calls \<^verbatim>\<open>sendWelcomeEmail\<close> with the
  payload of the new account, and the response is 200 with \<^verbatim>\<open>success: true\<close> and the id
  of the created user, whatever the two calls of the dispatch (the access token and the
  send) do. The effects of the request are the lookup, the registration and their two
  console lines, then those of the dispatch: without the Gmail credentials the console
  line of line 33 alone; with them the request of an access token and, where that
  rejects, the console line of the failure; where it resolves, the message of the new
  account (the encoding of \<^verbatim>\<open>rawMessage\<close>) handed to Gmail, then the console line of the
  success or of the failure of the send.
\<close>

theorem new_account_is_created_and_notified:
  assumes "webhookData_of body =
             Some \<lparr>event = Some ev,
                   data = Some \<lparr>customer = Some c, paidAt = Some paid,
                                product = Some \<lparr>product.name = Some n\<rparr>\<rparr>\<rparr>"
    and "ev = ''subscription_created'' \<or> ev = ''subscription_renewed''"
    and "paid \<noteq> []" and "truthy (email c)" and "truthy (customer.name c)"
    and "map_of planMapping n = Some info"
    and "calculateExpirationDate (tza env) (new_Date (Date_parse_other env) paid)
           (Some (durationInMonths info)) = Inr expirationDate"
    and "login env (or_empty (email c)) [] = Returns loginResult"
    and "\<not> (result_success loginResult \<and> result_user loginResult \<noteq> None)"
    and "register env (newUserPayload c (Some (plan info)) expirationDate) = Returns result"
    and "result_success result" and "result_user result = Some created"
  shows "POST (env\<lparr>getAccessToken := token_outcome, gmail_send := send_outcome\<rparr>) (Returns body) =
           ([Login (or_empty (email c)) [],
             Console (Criando_novo_usuario (or_empty (email c))),
             Register (newUserPayload c (Some (plan info)) expirationDate),
             Console (Usuario_criado_com_sucesso (or_empty (email c)) (Some (plan info)))]
            @ sendWelcomeEmail (env\<lparr>getAccessToken := token_outcome, gmail_send := send_outcome\<rparr>)
                (newUserPayload c (Some (plan info)) expirationDate),
            \<lparr>status = 200, success = True, message = Usuario_criado,
             userId = Some (user_id created), error = None\<rparr>)
         \<and> sendWelcomeEmail (env\<lparr>getAccessToken := token_outcome, gmail_send := send_outcome\<rparr>)
                (newUserPayload c (Some (plan info)) expirationDate) \<noteq> []
         \<and> (truthy (G_CLIENT_ID env) \<and> truthy (G_CLIENT_SECRET env)
              \<and> truthy (G_REFRESH_TOKEN env) \<and> truthy (EMAIL_FROM env) \<longrightarrow>
            GetAccessToken
              \<in> set (fst (POST (env\<lparr>getAccessToken := token_outcome, gmail_send := send_outcome\<rparr>)
                             (Returns body))))
         \<and> fst (POST (env\<lparr>getAccessToken := token_outcome, gmail_send := send_outcome\<rparr>)
                  (Returns body)) =
             [Login (or_empty (email c)) [],
              Console (Criando_novo_usuario (or_empty (email c))),
              Register (newUserPayload c (Some (plan info)) expirationDate),
              Console (Usuario_criado_com_sucesso (or_empty (email c)) (Some (plan info)))]
             @ (if truthy (G_CLIENT_ID env) \<and> truthy (G_CLIENT_SECRET env)
                   \<and> truthy (G_REFRESH_TOKEN env) \<and> truthy (EMAIL_FROM env)
                then (case token_outcome of
                        Throws e \<Rightarrow>
                          [GetAccessToken,
                           Console (Falha_ao_enviar_email (or_empty (email c)) e)]
                      | Returns accessToken \<Rightarrow>
                          [GetAccessToken,
                           GmailSend
                             (base64url
                                (rawMessage env
                                   (newUserPayload c (Some (plan info)) expirationDate)))]
                          @ (case send_outcome
                                    (base64url
                                       (rawMessage env
                                          (newUserPayload c (Some (plan info)) expirationDate))) of
                               Throws e \<Rightarrow>
                                 [Console (Falha_ao_enviar_email (or_empty (email c)) e)]
                             | Returns sent \<Rightarrow>
                                 [Console (Email_enviado (or_empty (email c)))]))
                else [Console Credenciais_nao_configuradas])
         \<and> (truthy (G_CLIENT_ID env) \<and> truthy (G_CLIENT_SECRET env)
              \<and> truthy (G_REFRESH_TOKEN env) \<and> truthy (EMAIL_FROM env)
              \<and> token_outcome = Returns () \<longrightarrow>
            GmailSend
              (base64url (rawMessage env (newUserPayload c (Some (plan info)) expirationDate)))
              \<in> set (fst (POST (env\<lparr>getAccessToken := token_outcome, gmail_send := send_outcome\<rparr>)
                             (Returns body))))"
proof -
  let ?env = "env\<lparr>getAccessToken := token_outcome, gmail_send := send_outcome\<rparr>"
  let ?payload = "newUserPayload c (Some (plan info)) expirationDate"
  let ?before = "[Login (or_empty (email c)) [],
        Console (Criando_novo_usuario (or_empty (email c))),
        Register ?payload,
        Console (Usuario_criado_com_sucesso (or_empty (email c)) (Some (plan info)))]"
  let ?credentials = "truthy (G_CLIENT_ID env) \<and> truthy (G_CLIENT_SECRET env)
                      \<and> truthy (G_REFRESH_TOKEN env) \<and> truthy (EMAIL_FROM env)"
  let ?raw = "base64url (rawMessage env ?payload)"
  let ?dispatch =
    "if ?credentials
     then (case token_outcome of
             Throws e \<Rightarrow> [GetAccessToken, Console (Falha_ao_enviar_email (or_empty (email c)) e)]
           | Returns accessToken \<Rightarrow>
               [GetAccessToken, GmailSend ?raw]
               @ (case send_outcome ?raw of
                    Throws e \<Rightarrow> [Console (Falha_ao_enviar_email (or_empty (email c)) e)]
                  | Returns sent \<Rightarrow> [Console (Email_enviado (or_empty (email c)))]))
     else [Console Credenciais_nao_configuradas]"
  have "POST_try ?env (Returns body) = reconcile ?env c (Some (plan info)) expirationDate"
    using assms(7) by (intro POST_try_reconcile [OF assms(1-6)]) simp
  also have "\<dots> =
      (?before @ sendWelcomeEmail ?env ?payload,
       Inr ((json_response 200 True Usuario_criado)\<lparr>userId := Some (user_id created)\<rparr>))"
    using assms(8,10) by (intro reconcile_create [OF _ assms(9) _ assms(11,12)]) simp_all
  finally have run: "POST ?env (Returns body) =
      (?before @ sendWelcomeEmail ?env ?payload,
       (json_response 200 True Usuario_criado)\<lparr>userId := Some (user_id created)\<rparr>)"
    by (rule POST_of_try)
  have raw: "encodedMessage ?env ?payload = ?raw"
    unfolding encodedMessage_outcomes by (simp add: encodedMessage_def)
  have dispatch: "sendWelcomeEmail ?env ?payload = ?dispatch"
    unfolding sendWelcomeEmail_dispatch [of ?env ?payload] raw
      newUserPayload_email [OF assms(4)]
    by (cases token_outcome) simp_all
  have trace: "fst (POST ?env (Returns body)) = ?before @ ?dispatch"
    unfolding run dispatch by simp
  have token: "?credentials \<longrightarrow> GetAccessToken \<in> set (fst (POST ?env (Returns body)))"
    unfolding trace by (cases token_outcome) simp_all
  have send: "truthy (G_CLIENT_ID env) \<and> truthy (G_CLIENT_SECRET env)
              \<and> truthy (G_REFRESH_TOKEN env) \<and> truthy (EMAIL_FROM env)
              \<and> token_outcome = Returns ()
              \<longrightarrow> GmailSend ?raw \<in> set (fst (POST ?env (Returns body)))"
    unfolding trace by simp
  have response: "POST ?env (Returns body) =
      (?before @ sendWelcomeEmail ?env ?payload,
       \<lparr>status = 200, success = True, message = Usuario_criado,
        userId = Some (user_id created), error = None\<rparr>)"
    unfolding run by (simp add: json_response_def)
  show ?thesis
    by (intro conjI; (rule response sendWelcomeEmail_nonempty token trace send))
qed

theorem new_account_witness:
  "POST (fresh_env\<lparr>getAccessToken := Returns (), gmail_send := (\<lambda>raw. Returns ())\<rparr>)
        (example_request ''Plano Mensal'') =
     ([Login ''ana@example.com'' [],
       Console (Criando_novo_usuario ''ana@example.com''),
       Register example_payload,
       Console (Usuario_criado_com_sucesso ''ana@example.com'' (Some ''mensal'')),
       GetAccessToken,
       GmailSend (base64url (rawMessage fresh_env example_payload)),
       Console (Email_enviado ''ana@example.com'')],
      \<lparr>status = 200, success = True, message = Usuario_criado, userId = Some ''u2'',
       error = None\<rparr>)
   \<and> POST (fresh_env\<lparr>getAccessToken := Returns (),
                      gmail_send := (\<lambda>raw. Throws (ErrorObject ''quota''))\<rparr>)
        (example_request ''Plano Mensal'') =
     ([Login ''ana@example.com'' [],
       Console (Criando_novo_usuario ''ana@example.com''),
       Register example_payload,
       Console (Usuario_criado_com_sucesso ''ana@example.com'' (Some ''mensal'')),
       GetAccessToken,
       GmailSend (base64url (rawMessage fresh_env example_payload)),
       Console (Falha_ao_enviar_email ''ana@example.com'' (ErrorObject ''quota''))],
      \<lparr>status = 200, success = True, message = Usuario_criado, userId = Some ''u2'',
       error = None\<rparr>)"
proof -
  have l: "login fresh_env (or_empty (email example_customer)) [] =
             Returns (AuthResult False None (Some ''Credenciais invalidas''))"
    by (simp add: fresh_env_def example_env_def)
  have r: "register fresh_env
             (newUserPayload example_customer
                (Some (plan \<lparr>plan = ''mensal'', durationInMonths = 1\<rparr>))
                ''2024-02-15T00:00:00.000Z'') =
           Returns (AuthResult True (Some (User ''u2'')) None)"
    by (simp add: fresh_env_def example_env_def)
  have x: "calculateExpirationDate (tza fresh_env)
             (new_Date (Date_parse_other fresh_env) ''2024-01-15T00:00:00Z'')
             (Some (durationInMonths \<lparr>plan = ''mensal'', durationInMonths = 1\<rparr>)) =
           Inr ''2024-02-15T00:00:00.000Z''"
    unfolding fresh_env_def by (rule example_env_expiration)
  have g: "truthy (G_CLIENT_ID fresh_env)" "truthy (G_CLIENT_SECRET fresh_env)"
      "truthy (G_REFRESH_TOKEN fresh_env)" "truthy (EMAIL_FROM fresh_env)"
    by (simp_all add: fresh_env_def example_env_def truthy_def)
  note T = new_account_is_created_and_notified
             [OF example_webhookData
                   [of "''subscription_renewed''" "''2024-01-15T00:00:00Z''" "''Plano Mensal''"]
                 _ _ example_customer_valid(1,2) example_plan x l _ r,
              where created = "User ''u2''" and token_outcome = "Returns ()"]
  note response = T [THEN conjunct1]
  note effects = T [THEN conjunct2, THEN conjunct2, THEN conjunct2, THEN conjunct1]
  have "snd (POST (fresh_env\<lparr>getAccessToken := Returns (), gmail_send := send_outcome\<rparr>)
               (example_request ''Plano Mensal'')) =
          \<lparr>status = 200, success = True, message = Usuario_criado, userId = Some ''u2'',
           error = None\<rparr>" for send_outcome
    unfolding example_request_def
    using response [of send_outcome] by simp
  moreover have "fst (POST (fresh_env\<lparr>getAccessToken := Returns (),
                                      gmail_send := (\<lambda>raw. Returns ())\<rparr>)
                        (example_request ''Plano Mensal'')) =
     [Login ''ana@example.com'' [],
      Console (Criando_novo_usuario ''ana@example.com''),
      Register example_payload,
      Console (Usuario_criado_com_sucesso ''ana@example.com'' (Some ''mensal'')),
      GetAccessToken,
      GmailSend (base64url (rawMessage fresh_env example_payload)),
      Console (Email_enviado ''ana@example.com'')]"
    unfolding example_request_def
    using effects [of "\<lambda>raw. Returns ()"]
    by (simp add: example_customer_valid example_payload_eq g)
  moreover have "fst (POST (fresh_env\<lparr>getAccessToken := Returns (),
                                      gmail_send := (\<lambda>raw. Throws (ErrorObject ''quota''))\<rparr>)
                        (example_request ''Plano Mensal'')) =
     [Login ''ana@example.com'' [],
      Console (Criando_novo_usuario ''ana@example.com''),
      Register example_payload,
      Console (Usuario_criado_com_sucesso ''ana@example.com'' (Some ''mensal'')),
      GetAccessToken,
      GmailSend (base64url (rawMessage fresh_env example_payload)),
      Console (Falha_ao_enviar_email ''ana@example.com'' (ErrorObject ''quota''))]"
    unfolding example_request_def
    using effects [of "\<lambda>raw. Throws (ErrorObject ''quota'')"]
    by (simp add: example_customer_valid example_payload_eq g)
  ultimately show ?thesis by (simp add: prod_eq_iff)
qed

subsection \<open>A registration that fails\<close>

text \<open>
  Claim C2 says that a registration refused as a duplicate is retried as an update. The
  handler has no such retry: with no account found at the lookup and the registration
  refused, the response is 500 and \<^verbatim>\<open>updateUser\<close> is not called.
\<close>

theorem refused_registration_returns_500:
  "POST conflict_env (example_request ''Plano Mensal'') =
     ([Login ''ana@example.com'' [],
       Console (Criando_novo_usuario ''ana@example.com''),
       Register example_payload,
       Console (Falha_ao_registrar_usuario (Some ''Email ja cadastrado''))],
      \<lparr>status = 500, success = False,
       message = Falha_ao_registrar (Some ''Email ja cadastrado''),
       userId = None, error = None\<rparr>)"
  by (rule example_conflict_run)

text \<open>
  Claim C2 as amended. For an accepted event with a valid expiration, when the lookup
  finds no account and the registration resolves without \<^verbatim>\<open>success\<close> or without a
  \<^verbatim>\<open>user\<close>, for whatever reason, the handler makes no further call to \<^verbatim>\<open>authService\<close>
  (in particular no update) and answers 500 with \<^verbatim>\<open>success: false\<close> and the message of
  the registration.
\<close>

theorem failed_registration_is_server_error:
  assumes "webhookData_of body =
             Some \<lparr>event = Some ev,
                   data = Some \<lparr>customer = Some c, paidAt = Some paid,
                                product = Some \<lparr>product.name = Some n\<rparr>\<rparr>\<rparr>"
    and "ev = ''subscription_created'' \<or> ev = ''subscription_renewed''"
    and "paid \<noteq> []" and "truthy (email c)" and "truthy (customer.name c)"
    and "map_of planMapping n = Some info"
    and "calculateExpirationDate (tza env) (new_Date (Date_parse_other env) paid)
           (Some (durationInMonths info)) = Inr expirationDate"
    and "login env (or_empty (email c)) [] = Returns loginResult"
    and "\<not> (result_success loginResult \<and> result_user loginResult \<noteq> None)"
    and "register env (newUserPayload c (Some (plan info)) expirationDate) = Returns result"
    and "\<not> (result_success result \<and> result_user result \<noteq> None)"
  shows "POST env (Returns body) =
           ([Login (or_empty (email c)) [],
             Console (Criando_novo_usuario (or_empty (email c))),
             Register (newUserPayload c (Some (plan info)) expirationDate),
             Console (Falha_ao_registrar_usuario (result_message result))],
            \<lparr>status = 500, success = False,
             message = Falha_ao_registrar (result_message result),
             userId = None, error = None\<rparr>)"
proof -
  have "POST_try env (Returns body) = reconcile env c (Some (plan info)) expirationDate"
    by (rule POST_try_reconcile [OF assms(1-7)])
  also have "\<dots> =
      ([Login (or_empty (email c)) [], Console (Criando_novo_usuario (or_empty (email c))),
        Register (newUserPayload c (Some (plan info)) expirationDate),
        Console (Falha_ao_registrar_usuario (result_message result))],
       Inr (json_response 500 False (Falha_ao_registrar (result_message result))))"
    by (rule reconcile_create_failed [OF assms(8-11)])
  finally show ?thesis
    by (simp add: POST_def json_response_def)
qed

theorem failed_registration_witness:
  "POST conflict_env
     (Returns (Value (Some (example_event ''subscription_created''
                              (Some ''2024-01-15T00:00:00Z'') ''Plano Mensal'')))) =
     ([Login ''ana@example.com'' [],
       Console (Criando_novo_usuario ''ana@example.com''),
       Register example_payload,
       Console (Falha_ao_registrar_usuario (Some ''Email ja cadastrado''))],
      \<lparr>status = 500, success = False,
       message = Falha_ao_registrar (Some ''Email ja cadastrado''),
       userId = None, error = None\<rparr>)"
proof -
  have l: "login conflict_env (or_empty (email example_customer)) [] =
             Returns (AuthResult False None (Some ''Credenciais invalidas''))"
    by (simp add: conflict_env_def example_env_def)
  have r: "register conflict_env
             (newUserPayload example_customer
                (Some (plan \<lparr>plan = ''mensal'', durationInMonths = 1\<rparr>))
                ''2024-02-15T00:00:00.000Z'') =
           Returns (AuthResult False None (Some ''Email ja cadastrado''))"
    by (simp add: conflict_env_def example_env_def)
  have x: "calculateExpirationDate (tza conflict_env)
             (new_Date (Date_parse_other conflict_env) ''2024-01-15T00:00:00Z'')
             (Some (durationInMonths \<lparr>plan = ''mensal'', durationInMonths = 1\<rparr>)) =
           Inr ''2024-02-15T00:00:00.000Z''"
    unfolding conflict_env_def by (rule example_env_expiration)
  show ?thesis
    using failed_registration_is_server_error
            [OF example_webhookData _ _ example_customer_valid(1,2) example_plan x l _ r]
    by (simp add: example_customer_valid example_payload_eq)
qed

theorem lookup_witness:
  "directory_ops (fst (POST existing_env (example_request ''Plano Mensal''))) =
     [Login ''ana@example.com'' [],
      UpdateUser ''u1''
        [(''isActive'', Bool True), (''plan'', Str ''mensal''),
         (''planExpiresAt'', Str ''2024-02-15T00:00:00.000Z'')]]"
proof -
  have x: "calculateExpirationDate (tza existing_env)
             (new_Date (Date_parse_other existing_env) ''2024-01-15T00:00:00Z'')
             (Some (durationInMonths \<lparr>plan = ''mensal'', durationInMonths = 1\<rparr>)) =
           Inr ''2024-02-15T00:00:00.000Z''"
    unfolding existing_env_def by (rule example_env_expiration)
  have l: "login existing_env ''ana@example.com'' [] =
             Returns (AuthResult True (Some (User ''u1'')) None)"
    by (simp add: existing_env_def example_env_def)
  show ?thesis
    unfolding example_request_def
    using lookup_is_login_with_empty_password
            [OF example_webhookData _ _ example_customer_valid(1,2) example_plan x]
    by (simp add: example_customer_valid l update_patch_def of_maybe_def)
qed

subsection \<open>The default credential\<close>







text \<open>The example request where the account is new: the effects, up to those of the e-mail.\<close>

lemma example_fresh_run:
  "fst (POST fresh_env (example_request ''Plano Mensal'')) =
     [Login ''ana@example.com'' [],
      Console (Criando_novo_usuario ''ana@example.com''),
      Register example_payload,
      Console (Usuario_criado_com_sucesso ''ana@example.com'' (Some ''mensal''))]
     @ sendWelcomeEmail fresh_env example_payload"
proof -
  have l: "login fresh_env (or_empty (email example_customer)) [] =
             Returns (AuthResult False None (Some ''Credenciais invalidas''))"
    by (simp add: fresh_env_def example_env_def)
  have r: "register fresh_env
             (newUserPayload example_customer
                (Some (plan \<lparr>plan = ''mensal'', durationInMonths = 1\<rparr>))
                ''2024-02-15T00:00:00.000Z'') =
           Returns (AuthResult True (Some (User ''u2'')) None)"
    by (simp add: fresh_env_def example_env_def)
  have x: "calculateExpirationDate (tza fresh_env)
             (new_Date (Date_parse_other fresh_env) ''2024-01-15T00:00:00Z'')
             (Some (durationInMonths \<lparr>plan = ''mensal'', durationInMonths = 1\<rparr>)) =
           Inr ''2024-02-15T00:00:00.000Z''"
    unfolding fresh_env_def by (rule example_env_expiration)
  have "POST_try fresh_env (example_request ''Plano Mensal'') =
          reconcile fresh_env example_customer
            (Some (plan \<lparr>plan = ''mensal'', durationInMonths = 1\<rparr>))
            ''2024-02-15T00:00:00.000Z''"
    unfolding example_request_def
    by (rule POST_try_reconcile
          [OF example_webhookData _ _ example_customer_valid(1,2) example_plan x]) simp_all
  also note reconcile_create [OF l _ r]
  finally show ?thesis
    by (simp add: POST_def example_customer_valid example_payload_eq)
qed

lemma example_fresh_sends:
  "GmailSend (encodedMessage fresh_env example_payload)
     \<in> set (fst (POST fresh_env (example_request ''Plano Mensal'')))"
proof -
  have "sendWelcomeEmail fresh_env example_payload =
          [GetAccessToken, GmailSend (encodedMessage fresh_env example_payload),
           Console (Falha_ao_enviar_email ''ana@example.com'' (ErrorObject ''quota''))]"
    by (simp add: sendWelcomeEmail_def fresh_env_def example_env_def truthy_def
          example_payload_def template_text_def)
  then show ?thesis
    unfolding example_fresh_run by simp
qed



section \<open>Calendar arithmetic\<close>

subsection \<open>Years\<close>

text \<open>
  \<open>year_from_day\<close> is \<^verbatim>\<open>YearFromTime\<close> as ECMA-262 defines it: the year whose first day
  is the last one not after the given day.
\<close>

lemma div_succ:
  fixes z k :: int
  assumes "0 < k"
  shows "(z + 1) div k = z div k + (if (z + 1) mod k = 0 then 1 else 0)"
proof (cases "z mod k = k - 1")
  case True
  have "z + 1 = k * (z div k) + (z mod k + 1)" by simp
  also have "\<dots> = k * (z div k) + k" using True by simp
  also have "\<dots> = k * (z div k + 1) + 0" by (simp add: algebra_simps)
  finally have eq: "z + 1 = k * (z div k + 1) + 0" .
  have "(z + 1) div k = z div k + 1"
    using int_div_pos_eq [OF eq] assms by simp
  moreover have "(z + 1) mod k = 0"
    using int_mod_pos_eq [OF eq] assms by simp
  ultimately show ?thesis by simp
next
  case False
  have r: "0 \<le> z mod k" "z mod k < k" using assms by simp_all
  have "z = k * (z div k) + z mod k" by simp
  then have eq: "z + 1 = k * (z div k) + (z mod k + 1)" by simp
  have lt: "z mod k + 1 < k" using r False by linarith
  have "(z + 1) div k = z div k"
    using int_div_pos_eq [OF eq _ lt] r by simp
  moreover have "(z + 1) mod k = z mod k + 1"
    using int_mod_pos_eq [OF eq _ lt] r by simp
  ultimately show ?thesis using r by simp
qed

lemma DayFromYear_step: "DayFromYear (y + 1) = DayFromYear y + DaysInYear y"
proof -
  have a: "(y + 1 - 1969) div 4 = (y - 1969) div 4 + (if y mod 4 = 0 then 1 else 0)"
    using div_succ [of 4 "y - 1969"] mod_diff_right_eq [of y 1968 4] by simp
  have b: "(y + 1 - 1901) div 100 = (y - 1901) div 100 + (if y mod 100 = 0 then 1 else 0)"
    using div_succ [of 100 "y - 1901"] mod_diff_right_eq [of y 1900 100] by simp
  have c: "(y + 1 - 1601) div 400 = (y - 1601) div 400 + (if y mod 400 = 0 then 1 else 0)"
    using div_succ [of 400 "y - 1601"] mod_diff_right_eq [of y 1600 400] by simp
  have m1: "y mod 4 = 0" if "y mod 100 = 0"
    using that mod_mod_cancel [of 4 100 y] by simp
  have m2: "y mod 100 = 0" if "y mod 400 = 0"
    using that mod_mod_cancel [of 100 400 y] by simp
  show ?thesis
    unfolding DayFromYear_def DaysInYear_def a b c using m1 m2 by auto
qed

lemma DaysInYear_cases: "DaysInYear y = 365 \<or> DaysInYear y = 366"
  by (simp add: DaysInYear_def)

lemma DayFromYear_mono_nat: "DayFromYear y + 365 * int n \<le> DayFromYear (y + int n)"
proof (induction n)
  case 0
  then show ?case by simp
next
  case (Suc n)
  have "DayFromYear (y + int (Suc n)) = DayFromYear (y + int n) + DaysInYear (y + int n)"
    using DayFromYear_step [of "y + int n"] by (simp add: algebra_simps)
  with Suc DaysInYear_cases [of "y + int n"] show ?case by (auto simp: algebra_simps)
qed

lemma DayFromYear_mono: "y \<le> y' \<Longrightarrow> DayFromYear y + 365 * y' - 365 * y \<le> DayFromYear y'"
  using DayFromYear_mono_nat [of y "nat (y' - y)"] by (simp add: algebra_simps)

lemma DayFromYear_le: "y \<le> y' \<Longrightarrow> DayFromYear y \<le> DayFromYear y'"
  using DayFromYear_mono [of y y'] by linarith

lemma year_lower: 
  assumes "y0 = 1970 + (400 * d) div 146097"
  shows "DayFromYear (y0 - 1) \<le> d"
proof -
  define k where "k = (400 * d) div 146097"
  have k1: "146097 * k \<le> 400 * d" unfolding k_def by simp
  define a where "a = (y0 - 1 - 1969) div 4"
  define b where "b = (y0 - 1 - 1901) div 100"
  define c where "c = (y0 - 1 - 1601) div 400"
  have a1: "4 * a \<le> y0 - 1 - 1969" unfolding a_def by simp
  have b1: "y0 - 1 - 1901 < 100 * b + 100" unfolding b_def
    using pos_mod_bound [of 100 "y0 - 1 - 1901"] by (simp add: minus_mod_eq_mult_div [symmetric]) 
  have c1: "400 * c \<le> y0 - 1 - 1601" unfolding c_def by simp
  have y: "y0 = 1970 + k" using assms k_def by simp
  have "DayFromYear (y0 - 1) = 365 * y0 - 365 * 1971 + a - b + c"
    by (simp add: DayFromYear_def a_def b_def c_def algebra_simps)
  then show ?thesis using k1 a1 b1 c1 y by linarith
qed

lemma year_upper: 
  assumes "y0 = 1970 + (400 * d) div 146097"
  shows "d < DayFromYear (y0 + 2)"
proof -
  define k where "k = (400 * d) div 146097"
  have k1: "400 * d < 146097 * k + 146097" unfolding k_def
    using pos_mod_bound [of 146097 "400 * d"] by (simp add: minus_mod_eq_mult_div [symmetric]) 
  define a where "a = (y0 + 2 - 1969) div 4"
  define b where "b = (y0 + 2 - 1901) div 100"
  define c where "c = (y0 + 2 - 1601) div 400"
  have a1: "y0 + 2 - 1969 < 4 * a + 4" unfolding a_def
    using pos_mod_bound [of 4 "y0 + 2 - 1969"] by (simp add: minus_mod_eq_mult_div [symmetric]) 
  have b1: "100 * b \<le> y0 + 2 - 1901" unfolding b_def by simp
  have c1: "y0 + 2 - 1601 < 400 * c + 400" unfolding c_def 
    using pos_mod_bound [of 400 "y0 + 2 - 1601"] by (simp add: minus_mod_eq_mult_div [symmetric]) 
  have y: "y0 = 1970 + k" using assms k_def by simp
  have "DayFromYear (y0 + 2) = 365 * y0 - 365 * 1968 + a - b + c"
    by (simp add: DayFromYear_def a_def b_def c_def algebra_simps)
  then show ?thesis using k1 a1 b1 c1 y by linarith
qed

lemma year_from_day_bracket:
  "DayFromYear (year_from_day d) \<le> d \<and> d < DayFromYear (year_from_day d + 1)"
  using year_lower [OF refl, of d] year_upper [OF refl, of d]
  by (auto simp: year_from_day_def Let_def add.commute add.left_commute)

lemma year_from_day_unique:
  assumes "DayFromYear y \<le> d" "d < DayFromYear (y + 1)"
  shows "year_from_day d = y"
proof (rule ccontr)
  assume ne: "year_from_day d \<noteq> y"
  let ?z = "year_from_day d"
  from year_from_day_bracket [of d] have z: "DayFromYear ?z \<le> d" "d < DayFromYear (?z + 1)"
    by simp_all
  from ne consider "?z + 1 \<le> y" | "y + 1 \<le> ?z" by linarith
  then show False
  proof cases
    case 1
    from DayFromYear_le [OF 1] have "DayFromYear (?z + 1) \<le> DayFromYear y" .
    with z assms show False by linarith
  next
    case 2
    from DayFromYear_le [OF 2] have "DayFromYear (y + 1) \<le> DayFromYear ?z" .
    with z assms show False by linarith
  qed
qed

subsection \<open>Months and days of the month\<close>

lemma DayWithinYear_bounds:
  "0 \<le> DayWithinYear t \<and> DayWithinYear t < DaysInYear (YearFromTime t)"
  using year_from_day_bracket [of "Day t"] DayFromYear_step [of "YearFromTime t"]
  by (simp add: DayWithinYear_def YearFromTime_def)

lemma month_of_day_range:
  assumes "leap = 0 \<or> leap = 1" and "0 \<le> d" and "d < 365 + leap"
  shows "0 \<le> month_of_day d leap \<and> month_of_day d leap \<le> 11
         \<and> month_start (month_of_day d leap) leap \<le> d
         \<and> d < month_start (month_of_day d leap + 1) leap"
  using assms unfolding month_of_day_def month_start_def by auto

lemma month_of_day_unique:
  assumes "leap = 0 \<or> leap = 1" and "0 \<le> m" and "m \<le> 11"
    and "month_start m leap \<le> d" and "d < month_start (m + 1) leap"
  shows "month_of_day d leap = m"
  using assms unfolding month_of_day_def month_start_def
  by (auto split: if_splits)


lemma MonthFromTime_range: "0 \<le> MonthFromTime t \<and> MonthFromTime t \<le> 11"
  by (simp add: MonthFromTime_def month_of_day_def)

lemma InLeapYear_DaysInYear: "DaysInYear (YearFromTime t) = 365 + InLeapYear t"
  using DaysInYear_cases [of "YearFromTime t"] by (auto simp: InLeapYear_def)

lemma MakeDay_of_fields: "MakeDay (YearFromTime t) (MonthFromTime t) (DateFromTime t) = Day t"
proof -
  have m: "MonthFromTime t div 12 = 0" "MonthFromTime t mod 12 = MonthFromTime t"
    using MonthFromTime_range [of t] by simp_all
  show ?thesis
    by (simp add: MakeDay_def Let_def m DateFromTime_def DayWithinYear_def InLeapYear_def)
qed

lemma Day_MakeDate:
  assumes "0 \<le> r" and "r < msPerDay"
  shows "Day (MakeDate n r) = n" and "TimeWithinDay (MakeDate n r) = r"
proof -
  have k: "0 < msPerDay" by (simp add: msPerDay_def)
  have eq: "MakeDate n r = msPerDay * n + r" by (simp add: MakeDate_def)
  show "Day (MakeDate n r) = n"
    unfolding Day_def using int_div_pos_eq [OF eq assms] .
  show "TimeWithinDay (MakeDate n r) = r"
    unfolding TimeWithinDay_def using int_mod_pos_eq [OF eq assms] .
qed

lemma TimeWithinDay_range: "0 \<le> TimeWithinDay t \<and> TimeWithinDay t < msPerDay"
  by (simp add: TimeWithinDay_def msPerDay_def)

lemma MakeDate_Day: "MakeDate (Day t) (TimeWithinDay t) = t"
  by (simp add: MakeDate_def Day_def TimeWithinDay_def)

lemma month_start_bounds:
  assumes "leap = 0 \<or> leap = 1" and "0 \<le> m" and "m \<le> 11"
  shows "0 \<le> month_start m leap" and "month_start (m + 1) leap \<le> 365 + leap"
  using assms by (auto simp: month_start_def)

text \<open>The calendar fields of a day given by a year, a month and a day of that month.\<close>

lemma fields_of_day:
  assumes m: "0 \<le> m" "m \<le> 11" and d: "1 \<le> d" "d \<le> DaysInMonth y m"
    and day: "Day t = DayFromYear y + month_start m (if DaysInYear y = 366 then 1 else 0) + d - 1"
  shows "YearFromTime t = y \<and> MonthFromTime t = m \<and> DateFromTime t = d"
proof -
  define leap :: int where "leap = (if DaysInYear y = 366 then 1 else 0)"
  have l: "leap = 0 \<or> leap = 1" by (simp add: leap_def)
  have dy: "DaysInYear y = 365 + leap"
    using DaysInYear_cases [of y] by (auto simp: leap_def)
  have d': "d \<le> month_start (m + 1) leap - month_start m leap"
    using d(2) by (simp add: DaysInMonth_def leap_def Let_def)
  define w where "w = month_start m leap + d - 1"
  have w: "0 \<le> w" "w < DaysInYear y" "month_start m leap \<le> w" "w < month_start (m + 1) leap"
    using month_start_bounds [OF l m] d(1) d' dy by (simp_all add: w_def)
  have day': "Day t = DayFromYear y + w"
    using day by (simp add: w_def leap_def)
  have y: "YearFromTime t = y"
    unfolding YearFromTime_def
    using w(1,2) day' DayFromYear_step [of y] by (intro year_from_day_unique) simp_all
  have il: "InLeapYear t = leap" by (simp add: InLeapYear_def y leap_def)
  have dw: "DayWithinYear t = w" by (simp add: DayWithinYear_def y day')
  have mo: "MonthFromTime t = m"
    unfolding MonthFromTime_def il dw by (rule month_of_day_unique [OF l m w(3,4)])
  have "DateFromTime t = d"
    by (simp add: DateFromTime_def mo il dw w_def)
  with y mo show ?thesis by simp
qed

lemma DateFromTime_valid:
  "1 \<le> DateFromTime t \<and> DateFromTime t \<le> DaysInMonth (YearFromTime t) (MonthFromTime t)"
proof -
  have l: "InLeapYear t = 0 \<or> InLeapYear t = 1" by (simp add: InLeapYear_def)
  have b: "0 \<le> DayWithinYear t" "DayWithinYear t < 365 + InLeapYear t"
    using DayWithinYear_bounds [of t] InLeapYear_DaysInYear [of t] by simp_all
  from month_of_day_range [OF l b] show ?thesis
    by (simp add: DateFromTime_def DaysInMonth_def MonthFromTime_def InLeapYear_def Let_def)
qed

subsection \<open>\<^verbatim>\<open>calculateExpirationDate\<close>\<close>

lemma expiration_time_Some:
  "expiration_time z (Some t) (Some k) =
     TimeClip (UTC z (MakeDate
       (MakeDay (YearFromTime (LocalTime z t)) (MonthFromTime (LocalTime z t) + k)
          (DateFromTime (LocalTime z t)))
       (TimeWithinDay (LocalTime z t))))"
  by (simp add: expiration_time_def setMonth_def getMonth_def js_add_def Let_def)

lemma expiration_time_zero:
  assumes "\<bar>t\<bar> \<le> 8640000000000000"
  shows "expiration_time z (Some t) (Some 0) = Some t"
  using assms
  by (simp add: expiration_time_Some MakeDay_of_fields MakeDate_Day UTC_def LocalTime_def
        TimeClip_def)

lemma expiration_time_local:
  assumes "expiration_time z (Some t) (Some k) = Some t'"
  shows "LocalTime z t' =
           MakeDate (MakeDay (YearFromTime (LocalTime z t)) (MonthFromTime (LocalTime z t) + k)
                       (DateFromTime (LocalTime z t)))
             (TimeWithinDay (LocalTime z t))"
  using assms
  by (auto simp: expiration_time_Some TimeClip_def UTC_def LocalTime_def split: if_splits)

text \<open>
  Adding \<open>k\<close> months moves the local calendar date to the same day of the month \<open>k\<close>
  months on, at the same time of day, where that month has such a day.
\<close>

lemma expiration_time_fields:
  assumes e: "expiration_time z (Some t) (Some k) = Some t'"
    and d: "DateFromTime (LocalTime z t)
              \<le> DaysInMonth (YearFromTime (LocalTime z t) + (MonthFromTime (LocalTime z t) + k) div 12)
                   ((MonthFromTime (LocalTime z t) + k) mod 12)"
  shows "YearFromTime (LocalTime z t') =
           YearFromTime (LocalTime z t) + (MonthFromTime (LocalTime z t) + k) div 12
         \<and> MonthFromTime (LocalTime z t') = (MonthFromTime (LocalTime z t) + k) mod 12
         \<and> DateFromTime (LocalTime z t') = DateFromTime (LocalTime z t)
         \<and> TimeWithinDay (LocalTime z t') = TimeWithinDay (LocalTime z t)"
proof -
  let ?lt = "LocalTime z t"
  let ?ym = "YearFromTime ?lt + (MonthFromTime ?lt + k) div 12"
  let ?mn = "(MonthFromTime ?lt + k) mod 12"
  have l: "LocalTime z t' =
             MakeDate (MakeDay (YearFromTime ?lt) (MonthFromTime ?lt + k) (DateFromTime ?lt))
               (TimeWithinDay ?lt)"
    by (rule expiration_time_local [OF e])
  have r: "0 \<le> TimeWithinDay ?lt" "TimeWithinDay ?lt < msPerDay"
    using TimeWithinDay_range [of ?lt] by simp_all
  have day: "Day (LocalTime z t') =
               DayFromYear ?ym + month_start ?mn (if DaysInYear ?ym = 366 then 1 else 0)
                 + DateFromTime ?lt - 1"
    unfolding l Day_MakeDate(1) [OF r] by (simp add: MakeDay_def Let_def)
  have m: "0 \<le> ?mn" "?mn \<le> 11" by simp_all
  have d1: "1 \<le> DateFromTime ?lt" using DateFromTime_valid [of ?lt] by simp
  from fields_of_day [OF m d1 d day] have
    "YearFromTime (LocalTime z t') = ?ym \<and> MonthFromTime (LocalTime z t') = ?mn
     \<and> DateFromTime (LocalTime z t') = DateFromTime ?lt" .
  moreover have "TimeWithinDay (LocalTime z t') = TimeWithinDay ?lt"
    unfolding l by (rule Day_MakeDate(2) [OF r])
  ultimately show ?thesis by simp
qed

lemma month_cases:
  assumes "0 \<le> m" and "m \<le> 11"
  shows "m \<in> {0, 1, 2, 3, 4, 5, 6, 7, 8, 9, 10, 11 :: int}"
proof -
  have "[0..11] = [0, 1, 2, 3, 4, 5, 6, 7, 8, 9, 10, 11 :: int]" by code_simp
  moreover have "m \<in> set [0..11]" using assms by simp
  ultimately show ?thesis by simp
qed

lemma DaysInMonth_bounds:
  assumes "0 \<le> m" and "m \<le> 11"
  shows "28 \<le> DaysInMonth y m" and "DaysInMonth y m \<le> 31"
  using month_cases [OF assms] by (auto simp: DaysInMonth_def month_start_def)

lemma DaysInMonth_December: "DaysInMonth y 11 = 31"
  by (simp add: DaysInMonth_def month_start_def)

text \<open>
  Where the target month is too short for the day of the month, the days beyond its end
  run into the month after it.
\<close>

lemma expiration_time_overflow:
  assumes e: "expiration_time z (Some t) (Some k) = Some t'"
    and d: "DaysInMonth (YearFromTime (LocalTime z t) + (MonthFromTime (LocalTime z t) + k) div 12)
              ((MonthFromTime (LocalTime z t) + k) mod 12)
            < DateFromTime (LocalTime z t)"
  shows "YearFromTime (LocalTime z t') =
           YearFromTime (LocalTime z t) + (MonthFromTime (LocalTime z t) + k) div 12
         \<and> MonthFromTime (LocalTime z t') = (MonthFromTime (LocalTime z t) + k) mod 12 + 1
         \<and> DateFromTime (LocalTime z t') =
             DateFromTime (LocalTime z t)
               - DaysInMonth (YearFromTime (LocalTime z t) + (MonthFromTime (LocalTime z t) + k) div 12)
                   ((MonthFromTime (LocalTime z t) + k) mod 12)
         \<and> TimeWithinDay (LocalTime z t') = TimeWithinDay (LocalTime z t)"
proof -
  let ?lt = "LocalTime z t"
  let ?ym = "YearFromTime ?lt + (MonthFromTime ?lt + k) div 12"
  let ?mn = "(MonthFromTime ?lt + k) mod 12"
  let ?leap = "if DaysInYear ?ym = 366 then 1 else 0 :: int"
  have l: "LocalTime z t' =
             MakeDate (MakeDay (YearFromTime ?lt) (MonthFromTime ?lt + k) (DateFromTime ?lt))
               (TimeWithinDay ?lt)"
    by (rule expiration_time_local [OF e])
  have r: "0 \<le> TimeWithinDay ?lt" "TimeWithinDay ?lt < msPerDay"
    using TimeWithinDay_range [of ?lt] by simp_all
  have m: "0 \<le> ?mn" "?mn \<le> 11" by simp_all
  have m0: "0 \<le> MonthFromTime ?lt" "MonthFromTime ?lt \<le> 11"
    using MonthFromTime_range [of ?lt] by simp_all
  have d31: "DateFromTime ?lt \<le> 31"
    using DateFromTime_valid [of ?lt] DaysInMonth_bounds(2) [OF m0, of "YearFromTime ?lt"]
    by linarith
  have not_dec: "?mn \<noteq> 11"
    using d d31 DaysInMonth_December [of ?ym] by auto
  have m': "0 \<le> ?mn + 1" "?mn + 1 \<le> 11" using m not_dec by linarith+
  have dim: "DaysInMonth ?ym ?mn = month_start (?mn + 1) ?leap - month_start ?mn ?leap"
    by (simp add: DaysInMonth_def Let_def)
  have day: "Day (LocalTime z t') =
               DayFromYear ?ym + month_start (?mn + 1) ?leap
                 + (DateFromTime ?lt - DaysInMonth ?ym ?mn) - 1"
    unfolding l Day_MakeDate(1) [OF r] dim by (simp add: MakeDay_def Let_def)
  have d1: "1 \<le> DateFromTime ?lt - DaysInMonth ?ym ?mn" using d by simp
  have d2: "DateFromTime ?lt - DaysInMonth ?ym ?mn \<le> DaysInMonth ?ym (?mn + 1)"
    using d31 DaysInMonth_bounds(1) [OF m, of ?ym] DaysInMonth_bounds(1) [OF m', of ?ym]
    by linarith
  from fields_of_day [OF m' d1 d2 day] have
    "YearFromTime (LocalTime z t') = ?ym \<and> MonthFromTime (LocalTime z t') = ?mn + 1
     \<and> DateFromTime (LocalTime z t') = DateFromTime ?lt - DaysInMonth ?ym ?mn" .
  moreover have "TimeWithinDay (LocalTime z t') = TimeWithinDay ?lt"
    unfolding l by (rule Day_MakeDate(2) [OF r])
  ultimately show ?thesis by simp
qed

lemma DaysInMonth_not_February:
  assumes "0 \<le> m" "m \<le> 11" "m \<noteq> 1"
  shows "DaysInMonth y m = DaysInMonth y' m"
  using assms by (auto simp: DaysInMonth_def month_start_def Let_def)

lemma DaysInMonth_February: "DaysInMonth y 1 = (if DaysInYear y = 366 then 29 else 28)"
  by (simp add: DaysInMonth_def month_start_def)

lemma after_leap_year: "DaysInYear y = 366 \<Longrightarrow> DaysInYear (y + 1) = 365"
proof -
  assume "DaysInYear y = 366"
  then have "y mod 4 = 0" by (auto simp: DaysInYear_def split: if_splits)
  then have "(y + 1) mod 4 = 1" using mod_add_left_eq [of y 4 1] by simp
  then show ?thesis by (simp add: DaysInYear_def)
qed

lemma expiration_time_twelve:
  assumes e: "expiration_time z (Some t) (Some 12) = Some t'"
    and n: "\<not> (MonthFromTime (LocalTime z t) = 1 \<and> DateFromTime (LocalTime z t) = 29)"
  shows "YearFromTime (LocalTime z t') = YearFromTime (LocalTime z t) + 1
         \<and> MonthFromTime (LocalTime z t') = MonthFromTime (LocalTime z t)
         \<and> DateFromTime (LocalTime z t') = DateFromTime (LocalTime z t)
         \<and> TimeWithinDay (LocalTime z t') = TimeWithinDay (LocalTime z t)"
proof -
  let ?lt = "LocalTime z t"
  have m: "0 \<le> MonthFromTime ?lt" "MonthFromTime ?lt \<le> 11"
    using MonthFromTime_range [of ?lt] by simp_all
  have dm: "(MonthFromTime ?lt + 12) div 12 = 1" "MonthFromTime ?lt mod 12 = MonthFromTime ?lt"
    using m by simp_all
  have v: "DateFromTime ?lt \<le> DaysInMonth (YearFromTime ?lt) (MonthFromTime ?lt)"
    using DateFromTime_valid [of ?lt] by simp
  have "DateFromTime ?lt \<le> DaysInMonth (YearFromTime ?lt + 1) (MonthFromTime ?lt)"
  proof (cases "MonthFromTime ?lt = 1")
    case True
    with v n show ?thesis by (auto simp: DaysInMonth_February split: if_splits)
  next
    case False
    with v DaysInMonth_not_February [OF m False, of "YearFromTime ?lt + 1" "YearFromTime ?lt"]
    show ?thesis by simp
  qed
  with expiration_time_fields [OF e] show ?thesis by (simp add: dm)
qed

lemma expiration_time_twelve_leap_day:
  assumes e: "expiration_time z (Some t) (Some 12) = Some t'"
    and n: "MonthFromTime (LocalTime z t) = 1" "DateFromTime (LocalTime z t) = 29"
  shows "YearFromTime (LocalTime z t') = YearFromTime (LocalTime z t) + 1
         \<and> MonthFromTime (LocalTime z t') = 2
         \<and> DateFromTime (LocalTime z t') = 1
         \<and> TimeWithinDay (LocalTime z t') = TimeWithinDay (LocalTime z t)"
proof -
  let ?lt = "LocalTime z t"
  let ?y = "YearFromTime ?lt"
  have "DateFromTime ?lt \<le> DaysInMonth ?y (MonthFromTime ?lt)"
    using DateFromTime_valid [of ?lt] by simp
  then have leap: "DaysInYear ?y = 366"
    using n by (auto simp: DaysInMonth_February split: if_splits)
  have next_year: "DaysInYear (?y + 1) = 365" by (rule after_leap_year [OF leap])
  have l: "LocalTime z t' = MakeDate (MakeDay ?y (1 + 12) 29) (TimeWithinDay ?lt)"
    using expiration_time_local [OF e] n by simp
  have r: "0 \<le> TimeWithinDay ?lt" "TimeWithinDay ?lt < msPerDay"
    using TimeWithinDay_range [of ?lt] by simp_all
  have day: "Day (LocalTime z t') =
               DayFromYear (?y + 1) + month_start 2 (if DaysInYear (?y + 1) = 366 then 1 else 0)
                 + 1 - 1"
    unfolding l Day_MakeDate(1) [OF r]
    by (simp add: MakeDay_def Let_def next_year month_start_def)
  have d: "(1::int) \<le> DaysInMonth (?y + 1) 2"
    by (simp add: DaysInMonth_def month_start_def)
  from fields_of_day [OF _ _ _ d day] have
    "YearFromTime (LocalTime z t') = ?y + 1 \<and> MonthFromTime (LocalTime z t') = 2
     \<and> DateFromTime (LocalTime z t') = 1" by simp
  moreover have "TimeWithinDay (LocalTime z t') = TimeWithinDay ?lt"
    unfolding l by (rule Day_MakeDate(2) [OF r])
  ultimately show ?thesis by simp
qed

lemma calculateExpirationDate_Inr:
  "calculateExpirationDate z start months = Inr x \<longleftrightarrow>
     (\<exists>t'. expiration_time z start months = Some t' \<and> x = iso_string t')"
  by (cases "expiration_time z start months")
     (auto simp: calculateExpirationDate_def toISOString_def)

lemma expiration_time_invalid: "expiration_time z None months = None"
  by (simp add: expiration_time_def setMonth_def)

subsection \<open>No months and twelve months\<close>

text \<open>
  Claim C8 says that twelve months after any start the expiration falls in the same month
  of the year. From 29 February 2024 (UTC, on a server in UTC) the twelfth month on is
  February 2025, which has no 29th day, and \<^verbatim>\<open>setMonth\<close> runs over into 1 March 2025:
  the start is in month 1 (February) and the expiration in month 2 (March). And from the
  last time value of the range, twelve months on is no time value: \<^verbatim>\<open>toISOString\<close>
  throws.
\<close>
theorem leap_day_plus_twelve_months_is_in_march:
  "parse_iso ''2024-02-29T00:00:00Z'' = Some 1709164800000
   \<and> expiration_time 0 (Some 1709164800000) (Some 12) = Some 1740787200000
   \<and> calculateExpirationDate 0 (Some 1709164800000) (Some 12) = Inr ''2025-03-01T00:00:00.000Z''
   \<and> MonthFromTime 1709164800000 = 1
   \<and> MonthFromTime 1740787200000 = 2
   \<and> calculateExpirationDate 0 (Some 8640000000000000) (Some 12) =
         Inl (ErrorObject ''Invalid time value'')"
  by code_simp

text \<open>
  Claim C8 as amended. The expiration is a function of the start, the number of months
  and the zone of the server (equal inputs give equal results); for every start in the
  range of time values, no months give the start itself; and twelve months, where the
  result is in the range of time values, give the same time of day one local year later,
  on the same day of the same month, except from 29 February, from where they give
  1 March.
\<close>
theorem expiration_after_zero_and_twelve_months:
  assumes "\<bar>t\<bar> \<le> 8640000000000000"
  shows "(start = start' \<and> months = months' \<longrightarrow>
            calculateExpirationDate z start months = calculateExpirationDate z start' months')
         \<and> expiration_time z (Some t) (Some 0) = Some t
         \<and> calculateExpirationDate z (Some t) (Some 0) = Inr (iso_string t)
         \<and> (\<forall>t'. expiration_time z (Some t) (Some 12) = Some t' \<longrightarrow>
                YearFromTime (LocalTime z t') = YearFromTime (LocalTime z t) + 1
                \<and> TimeWithinDay (LocalTime z t') = TimeWithinDay (LocalTime z t)
                \<and> (if MonthFromTime (LocalTime z t) = 1 \<and> DateFromTime (LocalTime z t) = 29
                    then MonthFromTime (LocalTime z t') = 2 \<and> DateFromTime (LocalTime z t') = 1
                    else MonthFromTime (LocalTime z t') = MonthFromTime (LocalTime z t)
                         \<and> DateFromTime (LocalTime z t') = DateFromTime (LocalTime z t)))"
proof -
  have zero: "expiration_time z (Some t) (Some 0) = Some t"
    by (rule expiration_time_zero [OF assms])
  then have iso: "calculateExpirationDate z (Some t) (Some 0) = Inr (iso_string t)"
    by (simp add: calculateExpirationDate_Inr)
  have twelve: "YearFromTime (LocalTime z t') = YearFromTime (LocalTime z t) + 1
                \<and> TimeWithinDay (LocalTime z t') = TimeWithinDay (LocalTime z t)
                \<and> (if MonthFromTime (LocalTime z t) = 1 \<and> DateFromTime (LocalTime z t) = 29
                    then MonthFromTime (LocalTime z t') = 2 \<and> DateFromTime (LocalTime z t') = 1
                    else MonthFromTime (LocalTime z t') = MonthFromTime (LocalTime z t)
                         \<and> DateFromTime (LocalTime z t') = DateFromTime (LocalTime z t))"
    if e: "expiration_time z (Some t) (Some 12) = Some t'" for t'
  proof (cases "MonthFromTime (LocalTime z t) = 1 \<and> DateFromTime (LocalTime z t) = 29")
    case True
    with expiration_time_twelve_leap_day [OF e] show ?thesis by simp
  next
    case False
    with expiration_time_twelve [OF e] show ?thesis by simp
  qed
  from zero iso twelve show ?thesis by blast
qed

theorem expiration_after_zero_and_twelve_months_witness:
  "expiration_time 0 (Some 1705276800000) (Some 0) = Some 1705276800000
   \<and> calculateExpirationDate 0 (Some 1705276800000) (Some 0) = Inr ''2024-01-15T00:00:00.000Z''
   \<and> expiration_time 0 (Some 1705276800000) (Some 12) = Some 1736899200000
   \<and> YearFromTime 1736899200000 = YearFromTime 1705276800000 + 1
   \<and> MonthFromTime 1736899200000 = MonthFromTime 1705276800000
   \<and> DateFromTime 1736899200000 = DateFromTime 1705276800000"
proof -
  have r: "\<bar>1705276800000 :: int\<bar> \<le> 8640000000000000" by simp
  have e: "expiration_time 0 (Some 1705276800000) (Some 12) = Some 1736899200000"
    by code_simp
  have i: "iso_string 1705276800000 = ''2024-01-15T00:00:00.000Z''"
    by code_simp
  have f: "MonthFromTime 1705276800000 = 0" "DateFromTime 1705276800000 = 15"
    by code_simp+
  show ?thesis
    using expiration_after_zero_and_twelve_months [OF r, where z = 0] e
    by (simp add: LocalTime_def i f)
qed

subsection \<open>The expiration written to the account\<close>

lemma fields_by_Day:
  assumes "Day a = Day b"
  shows "YearFromTime a = YearFromTime b" "MonthFromTime a = MonthFromTime b"
    "DateFromTime a = DateFromTime b"
  using assms
  by (simp_all add: YearFromTime_def MonthFromTime_def DateFromTime_def DayWithinYear_def
        InLeapYear_def)

lemma example_paidAt_parsed: "parse_iso ''2024-01-15T00:00:00Z'' = Some 1705276800000"
  by code_simp

lemma example_paidAt_any_parser: "new_Date other ''2024-01-15T00:00:00Z'' = Some 1705276800000"
  by (simp add: new_Date_def Date_parse_def example_paidAt_parsed TimeClip_def)

lemma example_fields:
  "YearFromTime 1705276800000 = 2024" "MonthFromTime 1705276800000 = 0"
  "DateFromTime 1705276800000 = 15" "Day 1705276800000 = 19737"
  "YearFromTime 1705190400000 = 2024" "MonthFromTime 1705190400000 = 0"
  "DateFromTime 1705190400000 = 14" "Day 1705190400000 = 19736"
  "MakeDay 2024 1 15 = 19768" "MakeDay 2024 1 14 = 19767"
  by code_simp+

lemma example_iso: "iso_string 1707955200000 = ''2024-02-15T00:00:00.000Z''"
  by code_simp

text \<open>The string written and the string of the specification denote the same instant.\<close>

lemma example_instant:
  "parse_iso ''2024-02-15T00:00:00.000Z'' = Some 1707955200000"
  "parse_iso ''2024-02-15T00:00:00Z'' = Some 1707955200000"
  by code_simp+

text \<open>
  The example of the specification on a server in any zone whose offset from UTC is less
  than a day.
\<close>

lemma example_expiration_any_zone:
  assumes "- 86400000 < z" and "z < 86400000"
  shows "expiration_time z (Some 1705276800000) (Some 1) = Some 1707955200000"
proof (cases "0 \<le> z")
  case True
  have eq: "LocalTime z 1705276800000 = MakeDate 19737 z"
    by (simp add: LocalTime_def MakeDate_def msPerDay_def)
  have r: "0 \<le> z" "z < msPerDay" using True assms by (simp_all add: msPerDay_def)
  have D: "Day (LocalTime z 1705276800000) = Day 1705276800000"
    unfolding eq Day_MakeDate(1) [OF r] by (simp add: example_fields)
  have W: "TimeWithinDay (LocalTime z 1705276800000) = z"
    unfolding eq by (rule Day_MakeDate(2) [OF r])
  show ?thesis
    using assms
    by (simp add: expiration_time_Some fields_by_Day [OF D] W example_fields MakeDate_def
          msPerDay_def UTC_def TimeClip_def)
next
  case False
  have eq: "LocalTime z 1705276800000 = MakeDate 19736 (z + 86400000)"
    by (simp add: LocalTime_def MakeDate_def msPerDay_def)
  have r: "0 \<le> z + 86400000" "z + 86400000 < msPerDay"
    using False assms by (simp_all add: msPerDay_def)
  have D: "Day (LocalTime z 1705276800000) = Day 1705190400000"
    unfolding eq Day_MakeDate(1) [OF r] by (simp add: example_fields)
  have W: "TimeWithinDay (LocalTime z 1705276800000) = z + 86400000"
    unfolding eq by (rule Day_MakeDate(2) [OF r])
  show ?thesis
    using assms
    by (simp add: expiration_time_Some fields_by_Day [OF D] W example_fields MakeDate_def
          msPerDay_def UTC_def TimeClip_def)
qed

lemma map_of_update_patch:
  "map_of (update_patch (Some p) x) ''planExpiresAt'' = Some (Str x)"
  "map_of (update_patch (Some p) x) ''plan'' = Some (Str p)"
  by (simp_all add: update_patch_def of_maybe_def)

lemma map_of_newUserPayload:
  "map_of (newUserPayload c (Some p) x) ''planExpiresAt'' = Some (Str x)"
  "map_of (newUserPayload c (Some p) x) ''plan'' = Some (Str p)"
  by (simp_all add: newUserPayload_def of_maybe_def)

lemma overflow_paidAt_any_parser: "new_Date other ''2024-01-31T00:00:00Z'' = Some 1706659200000"
proof -
  have "parse_iso ''2024-01-31T00:00:00Z'' = Some 1706659200000" by code_simp
  then show ?thesis by (simp add: new_Date_def Date_parse_def TimeClip_def)
qed

lemma overflow_fields:
  "YearFromTime 1706659200000 = 2024" "MonthFromTime 1706659200000 = 0"
  "DateFromTime 1706659200000 = 31" "Day 1706659200000 = 19753"
  "YearFromTime 1706572800000 = 2024" "MonthFromTime 1706572800000 = 0"
  "DateFromTime 1706572800000 = 30" "Day 1706572800000 = 19752"
  "MakeDay 2024 1 31 = 19784" "MakeDay 2024 1 30 = 19783"
  by code_simp+

lemma overflow_iso: "iso_string 1709337600000 = ''2024-03-02T00:00:00.000Z''"
  by code_simp

text \<open>
  A payment on 31 January and one month, on a server in any zone whose offset from UTC is
  less than a day: February 2024 has 29 days, and the expiration is 2 March.
\<close>

lemma overflow_expiration_any_zone:
  assumes "- 86400000 < z" and "z < 86400000"
  shows "expiration_time z (Some 1706659200000) (Some 1) = Some 1709337600000"
proof (cases "0 \<le> z")
  case True
  have eq: "LocalTime z 1706659200000 = MakeDate 19753 z"
    by (simp add: LocalTime_def MakeDate_def msPerDay_def)
  have r: "0 \<le> z" "z < msPerDay" using True assms by (simp_all add: msPerDay_def)
  have D: "Day (LocalTime z 1706659200000) = Day 1706659200000"
    unfolding eq Day_MakeDate(1) [OF r] by (simp add: overflow_fields)
  have W: "TimeWithinDay (LocalTime z 1706659200000) = z"
    unfolding eq by (rule Day_MakeDate(2) [OF r])
  show ?thesis
    using assms
    by (simp add: expiration_time_Some fields_by_Day [OF D] W overflow_fields MakeDate_def
          msPerDay_def UTC_def TimeClip_def)
next
  case False
  have eq: "LocalTime z 1706659200000 = MakeDate 19752 (z + 86400000)"
    by (simp add: LocalTime_def MakeDate_def msPerDay_def)
  have r: "0 \<le> z + 86400000" "z + 86400000 < msPerDay"
    using False assms by (simp_all add: msPerDay_def)
  have D: "Day (LocalTime z 1706659200000) = Day 1706572800000"
    unfolding eq Day_MakeDate(1) [OF r] by (simp add: overflow_fields)
  have W: "TimeWithinDay (LocalTime z 1706659200000) = z + 86400000"
    unfolding eq by (rule Day_MakeDate(2) [OF r])
  show ?thesis
    using assms
    by (simp add: expiration_time_Some fields_by_Day [OF D] W overflow_fields MakeDate_def
          msPerDay_def UTC_def TimeClip_def)
qed

text \<open>
  Claim C1. For an accepted event, whatever the handler writes to the account, by
  \<^verbatim>\<open>updateUser\<close> or by \<^verbatim>\<open>register\<close>, carries the plan of the catalog entry and, as
  \<^verbatim>\<open>planExpiresAt\<close>, the ISO rendering of the time value that \<^verbatim>\<open>setMonth\<close> gives from
  the time value of \<^verbatim>\<open>paidAt\<close> and the months of the catalog entry. In the local time of
  the server that time value has the time of day of \<^verbatim>\<open>paidAt\<close> and, for every accepted
  event, one of two dates. Where the month that many calendar months on has the day of
  the month of \<^verbatim>\<open>paidAt\<close>, it is that day of that month. Where that month is too short
  (a payment on the 29th, 30th or 31st), it is in the month after, on the day numbered
  by the days in excess: a payment on 31 January 2024 and one month give 2 March 2024,
  February having 29 days. No clock is read: the handler has no other source of time
  than \<^verbatim>\<open>paidAt\<close>. For \<^verbatim>\<open>paidAt\<close> 2024-01-15T00:00:00Z and the product \<^verbatim>\<open>Plano Mensal\<close> the
  plan is \<^verbatim>\<open>mensal\<close> and the expiration is the instant 2024-02-15T00:00:00Z, written
  \<^verbatim>\<open>2024-02-15T00:00:00.000Z\<close> (the two strings parse to one time value), on a server in
  any zone less than a day from UTC; for \<^verbatim>\<open>paidAt\<close> 2024-01-31T00:00:00Z and the same
  product it is written \<^verbatim>\<open>2024-03-02T00:00:00.000Z\<close>.
\<close>
theorem expiration_is_paidAt_plus_catalog_months:
  assumes "webhookData_of body =
             Some \<lparr>event = Some ev,
                   data = Some \<lparr>customer = Some c, paidAt = Some paid,
                                product = Some \<lparr>product.name = Some n\<rparr>\<rparr>\<rparr>"
    and "ev = ''subscription_created'' \<or> ev = ''subscription_renewed''"
    and "paid \<noteq> []" and "truthy (email c)" and "truthy (customer.name c)"
    and "map_of planMapping n = Some info"
  shows "(\<forall>i written.
            UpdateUser i written \<in> set (fst (POST env (Returns body)))
            \<or> Register written \<in> set (fst (POST env (Returns body))) \<longrightarrow>
            (\<exists>t t'. new_Date (Date_parse_other env) paid = Some t
               \<and> expiration_time (tza env) (Some t) (Some (durationInMonths info)) = Some t'
               \<and> map_of written ''planExpiresAt'' = Some (Str (iso_string t'))
               \<and> map_of written ''plan'' = Some (Str (plan info))
               \<and> TimeWithinDay (LocalTime (tza env) t') = TimeWithinDay (LocalTime (tza env) t)
               \<and> (DateFromTime (LocalTime (tza env) t)
                    \<le> DaysInMonth
                         (YearFromTime (LocalTime (tza env) t)
                            + (MonthFromTime (LocalTime (tza env) t) + durationInMonths info) div 12)
                         ((MonthFromTime (LocalTime (tza env) t) + durationInMonths info) mod 12) \<longrightarrow>
                  YearFromTime (LocalTime (tza env) t') =
                    YearFromTime (LocalTime (tza env) t)
                      + (MonthFromTime (LocalTime (tza env) t) + durationInMonths info) div 12
                  \<and> MonthFromTime (LocalTime (tza env) t') =
                      (MonthFromTime (LocalTime (tza env) t) + durationInMonths info) mod 12
                  \<and> DateFromTime (LocalTime (tza env) t') = DateFromTime (LocalTime (tza env) t))
               \<and> (DaysInMonth
                    (YearFromTime (LocalTime (tza env) t)
                       + (MonthFromTime (LocalTime (tza env) t) + durationInMonths info) div 12)
                    ((MonthFromTime (LocalTime (tza env) t) + durationInMonths info) mod 12)
                  < DateFromTime (LocalTime (tza env) t) \<longrightarrow>
                  YearFromTime (LocalTime (tza env) t') =
                    YearFromTime (LocalTime (tza env) t)
                      + (MonthFromTime (LocalTime (tza env) t) + durationInMonths info) div 12
                  \<and> MonthFromTime (LocalTime (tza env) t') =
                      (MonthFromTime (LocalTime (tza env) t) + durationInMonths info) mod 12 + 1
                  \<and> DateFromTime (LocalTime (tza env) t') =
                      DateFromTime (LocalTime (tza env) t)
                        - DaysInMonth
                            (YearFromTime (LocalTime (tza env) t)
                               + (MonthFromTime (LocalTime (tza env) t) + durationInMonths info)
                                   div 12)
                            ((MonthFromTime (LocalTime (tza env) t) + durationInMonths info)
                               mod 12))))
         \<and> (paid = ''2024-01-15T00:00:00Z'' \<and> n = ''Plano Mensal''
              \<and> - 86400000 < tza env \<and> tza env < 86400000 \<longrightarrow>
            plan info = ''mensal''
            \<and> calculateExpirationDate (tza env) (new_Date (Date_parse_other env) paid)
                 (Some (durationInMonths info)) = Inr ''2024-02-15T00:00:00.000Z''
            \<and> parse_iso ''2024-02-15T00:00:00.000Z'' = parse_iso ''2024-02-15T00:00:00Z'')
         \<and> (paid = ''2024-01-31T00:00:00Z'' \<and> n = ''Plano Mensal''
              \<and> - 86400000 < tza env \<and> tza env < 86400000 \<longrightarrow>
            plan info = ''mensal''
            \<and> calculateExpirationDate (tza env) (new_Date (Date_parse_other env) paid)
                 (Some (durationInMonths info)) = Inr ''2024-03-02T00:00:00.000Z'')"
proof -
  let ?k = "durationInMonths info"
  let ?z = "tza env"
  let ?start = "new_Date (Date_parse_other env) paid"
  have general: "\<exists>t t'. ?start = Some t
               \<and> expiration_time ?z (Some t) (Some ?k) = Some t'
               \<and> map_of written ''planExpiresAt'' = Some (Str (iso_string t'))
               \<and> map_of written ''plan'' = Some (Str (plan info))
               \<and> TimeWithinDay (LocalTime ?z t') = TimeWithinDay (LocalTime ?z t)
               \<and> (DateFromTime (LocalTime ?z t)
                    \<le> DaysInMonth
                         (YearFromTime (LocalTime ?z t) + (MonthFromTime (LocalTime ?z t) + ?k) div 12)
                         ((MonthFromTime (LocalTime ?z t) + ?k) mod 12) \<longrightarrow>
                  YearFromTime (LocalTime ?z t') =
                    YearFromTime (LocalTime ?z t) + (MonthFromTime (LocalTime ?z t) + ?k) div 12
                  \<and> MonthFromTime (LocalTime ?z t') = (MonthFromTime (LocalTime ?z t) + ?k) mod 12
                  \<and> DateFromTime (LocalTime ?z t') = DateFromTime (LocalTime ?z t))
               \<and> (DaysInMonth
                    (YearFromTime (LocalTime ?z t) + (MonthFromTime (LocalTime ?z t) + ?k) div 12)
                    ((MonthFromTime (LocalTime ?z t) + ?k) mod 12)
                  < DateFromTime (LocalTime ?z t) \<longrightarrow>
                  YearFromTime (LocalTime ?z t') =
                    YearFromTime (LocalTime ?z t) + (MonthFromTime (LocalTime ?z t) + ?k) div 12
                  \<and> MonthFromTime (LocalTime ?z t') =
                      (MonthFromTime (LocalTime ?z t) + ?k) mod 12 + 1
                  \<and> DateFromTime (LocalTime ?z t') =
                      DateFromTime (LocalTime ?z t)
                        - DaysInMonth
                            (YearFromTime (LocalTime ?z t)
                               + (MonthFromTime (LocalTime ?z t) + ?k) div 12)
                            ((MonthFromTime (LocalTime ?z t) + ?k) mod 12))"
    if w: "UpdateUser i written \<in> set (fst (POST env (Returns body)))
           \<or> Register written \<in> set (fst (POST env (Returns body)))" for i written
  proof -
    from w POST_effects [of env "Returns body"]
    have w': "UpdateUser i written \<in> set (fst (POST_try env (Returns body)))
              \<or> Register written \<in> set (fst (POST_try env (Returns body)))" by auto
    then obtain x where x: "calculateExpirationDate ?z ?start (Some ?k) = Inr x"
      unfolding POST_try_accepted [OF assms, of env]
      by (cases "calculateExpirationDate ?z ?start (Some ?k)") auto
    from w' have "UpdateUser i written \<in> set (fst (reconcile env c (Some (plan info)) x))
              \<or> Register written \<in> set (fst (reconcile env c (Some (plan info)) x))"
      unfolding POST_try_accepted [OF assms, of env] x by simp
    with reconcile_effects [of env c "Some (plan info)" x]
    have "written = update_patch (Some (plan info)) x
          \<or> written = newUserPayload c (Some (plan info)) x" by auto
    then have m: "map_of written ''planExpiresAt'' = Some (Str x)"
        "map_of written ''plan'' = Some (Str (plan info))"
      by (auto simp: map_of_update_patch map_of_newUserPayload)
    from x obtain t' where t': "expiration_time ?z ?start (Some ?k) = Some t'" "x = iso_string t'"
      by (auto simp: calculateExpirationDate_Inr)
    then obtain t where t: "?start = Some t"
      by (cases ?start) (simp_all add: expiration_time_invalid)
    have e: "expiration_time ?z (Some t) (Some ?k) = Some t'" using t' t by simp
    have w: "TimeWithinDay (LocalTime ?z t') = TimeWithinDay (LocalTime ?z t)"
      unfolding expiration_time_local [OF e]
      using TimeWithinDay_range [of "LocalTime ?z t"] by (intro Day_MakeDate(2)) simp_all
    have written: "map_of written ''planExpiresAt'' = Some (Str (iso_string t'))"
      using m(1) t'(2) by simp
    from expiration_time_fields [OF e] expiration_time_overflow [OF e] t e written m(2) w
    show ?thesis by blast
  qed
  have i: "info = \<lparr>plan = ''mensal'', durationInMonths = 1\<rparr>" if "n = ''Plano Mensal''"
    using assms(6) that by (simp add: planMapping_def)
  have example: "plan info = ''mensal''
            \<and> calculateExpirationDate ?z ?start (Some ?k) = Inr ''2024-02-15T00:00:00.000Z''
            \<and> parse_iso ''2024-02-15T00:00:00.000Z'' = parse_iso ''2024-02-15T00:00:00Z''"
    if "paid = ''2024-01-15T00:00:00Z''" "n = ''Plano Mensal''" "- 86400000 < ?z" "?z < 86400000"
    unfolding that(1) example_paidAt_any_parser
    by (simp add: i [OF that(2)] calculateExpirationDate_Inr
          example_expiration_any_zone [OF that(3,4)] example_iso example_instant)
  have overflow: "plan info = ''mensal''
            \<and> calculateExpirationDate ?z ?start (Some ?k) = Inr ''2024-03-02T00:00:00.000Z''"
    if "paid = ''2024-01-31T00:00:00Z''" "n = ''Plano Mensal''" "- 86400000 < ?z" "?z < 86400000"
    unfolding that(1) overflow_paidAt_any_parser
    by (simp add: i [OF that(2)] calculateExpirationDate_Inr
          overflow_expiration_any_zone [OF that(3,4)] overflow_iso)
  from general example overflow show ?thesis by blast
qed

lemma example_existing_run:
  "POST existing_env (example_request ''Plano Mensal'') =
     ([Login ''ana@example.com'' [],
       Console (Usuario_ja_existe ''ana@example.com''),
       UpdateUser ''u1''
         [(''isActive'', Bool True), (''plan'', Str ''mensal''),
          (''planExpiresAt'', Str ''2024-02-15T00:00:00.000Z'')]],
      \<lparr>status = 200, success = True, message = Assinatura_renovada, userId = None,
       error = None\<rparr>)"
  by code_simp

text \<open>The same request with a payment on 31 January.\<close>

lemma overflow_existing_run:
  "POST existing_env
     (Returns (Value (Some (example_event ''subscription_renewed''
                              (Some ''2024-01-31T00:00:00Z'') ''Plano Mensal'')))) =
     ([Login ''ana@example.com'' [],
       Console (Usuario_ja_existe ''ana@example.com''),
       UpdateUser ''u1''
         [(''isActive'', Bool True), (''plan'', Str ''mensal''),
          (''planExpiresAt'', Str ''2024-03-02T00:00:00.000Z'')]],
      \<lparr>status = 200, success = True, message = Assinatura_renovada, userId = None,
       error = None\<rparr>)"
  by code_simp

theorem expiration_is_paidAt_plus_catalog_months_witness:
  "UpdateUser ''u1''
     [(''isActive'', Bool True), (''plan'', Str ''mensal''),
      (''planExpiresAt'', Str ''2024-02-15T00:00:00.000Z'')]
     \<in> set (fst (POST existing_env (example_request ''Plano Mensal'')))
   \<and> (\<exists>t t'. new_Date (Date_parse_other existing_env) ''2024-01-15T00:00:00Z'' = Some t
         \<and> expiration_time (tza existing_env) (Some t) (Some 1) = Some t'
         \<and> iso_string t' = ''2024-02-15T00:00:00.000Z''
         \<and> MonthFromTime (LocalTime (tza existing_env) t')
             = (MonthFromTime (LocalTime (tza existing_env) t) + 1) mod 12
         \<and> DateFromTime (LocalTime (tza existing_env) t')
             = DateFromTime (LocalTime (tza existing_env) t))
   \<and> calculateExpirationDate (tza existing_env)
        (new_Date (Date_parse_other existing_env) ''2024-01-15T00:00:00Z'') (Some 1)
      = Inr ''2024-02-15T00:00:00.000Z''
   \<and> UpdateUser ''u1''
        [(''isActive'', Bool True), (''plan'', Str ''mensal''),
         (''planExpiresAt'', Str ''2024-03-02T00:00:00.000Z'')]
        \<in> set (fst (POST existing_env
                       (Returns (Value (Some (example_event ''subscription_renewed''
                                                (Some ''2024-01-31T00:00:00Z'')
                                                ''Plano Mensal''))))))
   \<and> (\<exists>t t'. new_Date (Date_parse_other existing_env) ''2024-01-31T00:00:00Z'' = Some t
         \<and> expiration_time (tza existing_env) (Some t) (Some 1) = Some t'
         \<and> iso_string t' = ''2024-03-02T00:00:00.000Z''
         \<and> MonthFromTime (LocalTime (tza existing_env) t) = 0
         \<and> DateFromTime (LocalTime (tza existing_env) t) = 31
         \<and> YearFromTime (LocalTime (tza existing_env) t') = 2024
         \<and> MonthFromTime (LocalTime (tza existing_env) t') = 2
         \<and> DateFromTime (LocalTime (tza existing_env) t') = 2)
   \<and> calculateExpirationDate (tza existing_env)
        (new_Date (Date_parse_other existing_env) ''2024-01-31T00:00:00Z'') (Some 1)
      = Inr ''2024-03-02T00:00:00.000Z''"
proof -
  let ?z = "tza existing_env"
  let ?patch = "[(''isActive'', Bool True), (''plan'', Str ''mensal''),
                 (''planExpiresAt'', Str ''2024-02-15T00:00:00.000Z'')]"
  let ?late = "[(''isActive'', Bool True), (''plan'', Str ''mensal''),
                (''planExpiresAt'', Str ''2024-03-02T00:00:00.000Z'')]"
  have run: "UpdateUser ''u1'' ?patch \<in> set (fst (POST existing_env (Returns (Value (Some
               (example_event ''subscription_renewed'' (Some ''2024-01-15T00:00:00Z'')
                  ''Plano Mensal''))))))"
    using example_existing_run by (simp add: example_request_def)
  have run': "UpdateUser ''u1'' ?late \<in> set (fst (POST existing_env (Returns (Value (Some
               (example_event ''subscription_renewed'' (Some ''2024-01-31T00:00:00Z'')
                  ''Plano Mensal''))))))"
    unfolding overflow_existing_run by simp
  have z0: "?z = 0" by (simp add: existing_env_def example_env_def)
  have z: "- 86400000 < ?z \<and> ?z < 86400000" by (simp add: z0)
  have l: "LocalTime ?z t = t" for t by (simp add: z0 LocalTime_def)
  have feb: "DaysInMonth 2024 1 = 29"
    by (simp add: DaysInMonth_def month_start_def DaysInYear_def)
  have ev: "''subscription_renewed'' = ''subscription_created''
            \<or> ''subscription_renewed'' = ''subscription_renewed''" by simp
  have ne: "''2024-01-15T00:00:00Z'' \<noteq> []" "''2024-01-31T00:00:00Z'' \<noteq> []" by simp_all
  note T = expiration_is_paidAt_plus_catalog_months
             [OF example_webhookData ev ne(1) example_customer_valid(1,2) example_plan,
              of existing_env, unfolded plan_info.select_convs]
  note T' = expiration_is_paidAt_plus_catalog_months
             [OF example_webhookData ev ne(2) example_customer_valid(1,2) example_plan,
              of existing_env, unfolded plan_info.select_convs]
  note G = T [THEN conjunct1, rule_format, OF disjI1, OF run]
  note G' = T' [THEN conjunct1, rule_format, OF disjI1, OF run']
  note E = T [THEN conjunct2, THEN conjunct1, rule_format]
  note E' = T' [THEN conjunct2, THEN conjunct2, rule_format]
  from G obtain t t' where
    n: "new_Date (Date_parse_other existing_env) ''2024-01-15T00:00:00Z'' = Some t"
    and x: "expiration_time ?z (Some t) (Some 1) = Some t'"
    and p: "map_of ?patch ''planExpiresAt'' = Some (Str (iso_string t'))"
    and b: "DateFromTime (LocalTime ?z t)
              \<le> DaysInMonth
                   (YearFromTime (LocalTime ?z t) + (MonthFromTime (LocalTime ?z t) + 1) div 12)
                   ((MonthFromTime (LocalTime ?z t) + 1) mod 12) \<longrightarrow>
            YearFromTime (LocalTime ?z t') =
              YearFromTime (LocalTime ?z t) + (MonthFromTime (LocalTime ?z t) + 1) div 12
            \<and> MonthFromTime (LocalTime ?z t') = (MonthFromTime (LocalTime ?z t) + 1) mod 12
            \<and> DateFromTime (LocalTime ?z t') = DateFromTime (LocalTime ?z t)"
    by (elim exE conjE)
  have t: "t = 1705276800000" using n by (simp add: example_paidAt_any_parser)
  have "DateFromTime (LocalTime ?z t)
          \<le> DaysInMonth
               (YearFromTime (LocalTime ?z t) + (MonthFromTime (LocalTime ?z t) + 1) div 12)
               ((MonthFromTime (LocalTime ?z t) + 1) mod 12)"
    by (simp add: t l example_fields feb)
  with b have f: "MonthFromTime (LocalTime ?z t') = (MonthFromTime (LocalTime ?z t) + 1) mod 12"
      "DateFromTime (LocalTime ?z t') = DateFromTime (LocalTime ?z t)"
    by simp_all
  have iso: "iso_string t' = ''2024-02-15T00:00:00.000Z''" using p by simp
  have first: "\<exists>t t'. new_Date (Date_parse_other existing_env) ''2024-01-15T00:00:00Z'' = Some t
         \<and> expiration_time ?z (Some t) (Some 1) = Some t'
         \<and> iso_string t' = ''2024-02-15T00:00:00.000Z''
         \<and> MonthFromTime (LocalTime ?z t') = (MonthFromTime (LocalTime ?z t) + 1) mod 12
         \<and> DateFromTime (LocalTime ?z t') = DateFromTime (LocalTime ?z t)"
    by (intro exI conjI; (rule n x iso f))
  have e: "calculateExpirationDate ?z
             (new_Date (Date_parse_other existing_env) ''2024-01-15T00:00:00Z'') (Some 1)
           = Inr ''2024-02-15T00:00:00.000Z''"
    using E z by simp
  from G' obtain u u' where
    n': "new_Date (Date_parse_other existing_env) ''2024-01-31T00:00:00Z'' = Some u"
    and x': "expiration_time ?z (Some u) (Some 1) = Some u'"
    and p': "map_of ?late ''planExpiresAt'' = Some (Str (iso_string u'))"
    and b': "DaysInMonth
               (YearFromTime (LocalTime ?z u) + (MonthFromTime (LocalTime ?z u) + 1) div 12)
               ((MonthFromTime (LocalTime ?z u) + 1) mod 12)
             < DateFromTime (LocalTime ?z u) \<longrightarrow>
             YearFromTime (LocalTime ?z u') =
               YearFromTime (LocalTime ?z u) + (MonthFromTime (LocalTime ?z u) + 1) div 12
             \<and> MonthFromTime (LocalTime ?z u') = (MonthFromTime (LocalTime ?z u) + 1) mod 12 + 1
             \<and> DateFromTime (LocalTime ?z u') =
                 DateFromTime (LocalTime ?z u)
                   - DaysInMonth
                       (YearFromTime (LocalTime ?z u)
                          + (MonthFromTime (LocalTime ?z u) + 1) div 12)
                       ((MonthFromTime (LocalTime ?z u) + 1) mod 12)"
    by (elim exE conjE)
  have u: "u = 1706659200000" using n' by (simp add: overflow_paidAt_any_parser)
  have o: "MonthFromTime (LocalTime ?z u) = 0" "DateFromTime (LocalTime ?z u) = 31"
    by (simp_all add: u l overflow_fields)
  have "DaysInMonth
          (YearFromTime (LocalTime ?z u) + (MonthFromTime (LocalTime ?z u) + 1) div 12)
          ((MonthFromTime (LocalTime ?z u) + 1) mod 12)
        < DateFromTime (LocalTime ?z u)"
    by (simp add: u l overflow_fields feb)
  with b' have "YearFromTime (LocalTime ?z u') =
               YearFromTime (LocalTime ?z u) + (MonthFromTime (LocalTime ?z u) + 1) div 12
             \<and> MonthFromTime (LocalTime ?z u') = (MonthFromTime (LocalTime ?z u) + 1) mod 12 + 1
             \<and> DateFromTime (LocalTime ?z u') =
                 DateFromTime (LocalTime ?z u)
                   - DaysInMonth
                       (YearFromTime (LocalTime ?z u)
                          + (MonthFromTime (LocalTime ?z u) + 1) div 12)
                       ((MonthFromTime (LocalTime ?z u) + 1) mod 12)"
    by (rule mp)
  then have f': "YearFromTime (LocalTime ?z u') = 2024" "MonthFromTime (LocalTime ?z u') = 2"
      "DateFromTime (LocalTime ?z u') = 2"
    by (simp_all add: u l overflow_fields feb)
  have iso': "iso_string u' = ''2024-03-02T00:00:00.000Z''" using p' by simp
  have second: "\<exists>t t'. new_Date (Date_parse_other existing_env) ''2024-01-31T00:00:00Z'' = Some t
         \<and> expiration_time ?z (Some t) (Some 1) = Some t'
         \<and> iso_string t' = ''2024-03-02T00:00:00.000Z''
         \<and> MonthFromTime (LocalTime ?z t) = 0
         \<and> DateFromTime (LocalTime ?z t) = 31
         \<and> YearFromTime (LocalTime ?z t') = 2024
         \<and> MonthFromTime (LocalTime ?z t') = 2
         \<and> DateFromTime (LocalTime ?z t') = 2"
    by (intro exI conjI; (rule n' x' iso' o f'))
  have e': "calculateExpirationDate ?z
             (new_Date (Date_parse_other existing_env) ''2024-01-31T00:00:00Z'') (Some 1)
           = Inr ''2024-03-02T00:00:00.000Z''"
    using E' z by simp
  show ?thesis
    unfolding example_request_def by (intro conjI; (rule run first e run' second e'))
qed

end
